theory Spec2Isabelle
  imports Complex_Main
begin

section \<open>Floating-point values\<close>

text \<open>
  The analytics module computes on NumPy/pandas \<open>float64\<close> columns.  The embedding keeps
  the special values of that type and idealises the rest: a finite value is a real number
  (no rounding error, no overflow, one zero), beside the two infinities and NaN.  Input
  columns hold finite values; infinities and NaN arise from the computation itself
  (division by zero, the statistics of an empty or one-element group, the z-score of a
  constant column).
\<close>

datatype fl = Fin real | PInf | NInf | NaN

fun fl_neg :: "fl \<Rightarrow> fl" where
  "fl_neg (Fin x) = Fin (- x)"
| "fl_neg PInf = NInf"
| "fl_neg NInf = PInf"
| "fl_neg NaN = NaN"

fun fl_abs :: "fl \<Rightarrow> fl" where
  "fl_abs (Fin x) = Fin \<bar>x\<bar>"
| "fl_abs PInf = PInf"
| "fl_abs NInf = PInf"
| "fl_abs NaN = NaN"

fun fl_add :: "fl \<Rightarrow> fl \<Rightarrow> fl" where
  "fl_add (Fin x) (Fin y) = Fin (x + y)"
| "fl_add NaN b = NaN"
| "fl_add a NaN = NaN"
| "fl_add PInf NInf = NaN"
| "fl_add NInf PInf = NaN"
| "fl_add PInf b = PInf"
| "fl_add a PInf = PInf"
| "fl_add NInf b = NInf"
| "fl_add a NInf = NInf"

definition fl_sub :: "fl \<Rightarrow> fl \<Rightarrow> fl" where
  "fl_sub a b = fl_add a (fl_neg b)"

text \<open>The sign of a value that is not NaN: \<open>1\<close>, \<open>0\<close> or \<open>-1\<close>.\<close>

fun fl_sgn :: "fl \<Rightarrow> int" where
  "fl_sgn (Fin x) = (if x > 0 then 1 else if x < 0 then - 1 else 0)"
| "fl_sgn PInf = 1"
| "fl_sgn NInf = - 1"
| "fl_sgn NaN = 0"

definition signed_inf :: "int \<Rightarrow> fl" where
  "signed_inf s = (if s > 0 then PInf else if s < 0 then NInf else NaN)"

fun fl_mul :: "fl \<Rightarrow> fl \<Rightarrow> fl" where
  "fl_mul (Fin x) (Fin y) = Fin (x * y)"
| "fl_mul NaN b = NaN"
| "fl_mul a NaN = NaN"
| "fl_mul a b = signed_inf (fl_sgn a * fl_sgn b)"

text \<open>
  Array division as NumPy does it: a division by zero is no error (a warning at most);
  it gives an infinity, or NaN for \<open>0 / 0\<close>.
\<close>

fun fl_div :: "fl \<Rightarrow> fl \<Rightarrow> fl" where
  "fl_div (Fin x) (Fin y) = (if y = 0 then signed_inf (fl_sgn (Fin x)) else Fin (x / y))"
| "fl_div NaN b = NaN"
| "fl_div a NaN = NaN"
| "fl_div (Fin x) b = Fin 0"
| "fl_div a (Fin y) = signed_inf (fl_sgn a * (if y < 0 then - 1 else 1))"
| "fl_div a b = NaN"

fun fl_sqrt :: "fl \<Rightarrow> fl" where
  "fl_sqrt (Fin x) = (if x < 0 then NaN else Fin (sqrt x))"
| "fl_sqrt PInf = PInf"
| "fl_sqrt NInf = NaN"
| "fl_sqrt NaN = NaN"

text \<open>Comparisons: every comparison with NaN is false.\<close>

fun fl_lt :: "fl \<Rightarrow> fl \<Rightarrow> bool" where
  "fl_lt (Fin x) (Fin y) = (x < y)"
| "fl_lt NaN b = False"
| "fl_lt a NaN = False"
| "fl_lt a NInf = False"
| "fl_lt PInf b = False"
| "fl_lt NInf b = True"
| "fl_lt a PInf = True"

definition fl_gt :: "fl \<Rightarrow> fl \<Rightarrow> bool" where
  "fl_gt a b = fl_lt b a"

fun fl_le :: "fl \<Rightarrow> fl \<Rightarrow> bool" where
  "fl_le NaN b = False"
| "fl_le a NaN = False"
| "fl_le a b = (\<not> fl_lt b a)"

text \<open>
  Rounding to two decimals as \<open>round(x, 2)\<close> does on an array: scale by 100, round to
  the nearest integer with ties to the even one, scale back.
\<close>

definition rint :: "real \<Rightarrow> int" where
  "rint x = (let f = \<lfloor>x\<rfloor>; d = x - of_int f
             in if d < 1 / 2 then f else if 1 / 2 < d then f + 1
                else if even f then f else f + 1)"

fun fl_round2 :: "fl \<Rightarrow> fl" where
  "fl_round2 (Fin x) = Fin (of_int (rint (x * 100)) / 100)"
| "fl_round2 a = a"

section \<open>Series statistics\<close>

text \<open>
  A pandas Series of floats is a list of \<^typ>\<open>fl\<close>.  The reductions of pandas skip NaN
  (\<open>skipna=True\<close>) and return NaN when nothing is left.
\<close>

definition dropna :: "fl list \<Rightarrow> fl list" where
  "dropna xs = filter (\<lambda>x. x \<noteq> NaN) xs"

definition fl_sum :: "fl list \<Rightarrow> fl" where
  "fl_sum xs = foldl fl_add (Fin 0) xs"

definition s_count :: "fl list \<Rightarrow> nat" where
  "s_count xs = length (dropna xs)"

definition s_mean :: "fl list \<Rightarrow> fl" where
  "s_mean xs = (let ys = dropna xs
                in if ys = [] then NaN else fl_div (fl_sum ys) (Fin (real (length ys))))"

text \<open>\<open>Series.std()\<close>: pandas' default \<open>ddof=1\<close>, the sample standard deviation.\<close>

definition s_std :: "fl list \<Rightarrow> fl" where
  "s_std xs = (let ys = dropna xs; n = length ys
               in if n \<le> 1 then NaN
                  else let avg = fl_div (fl_sum ys) (Fin (real n));
                           sq = fl_sum (map (\<lambda>y. fl_mul (fl_sub y avg) (fl_sub y avg)) ys)
                       in fl_sqrt (fl_div sq (Fin (real (n - 1)))))"

fun fl_insort :: "fl \<Rightarrow> fl list \<Rightarrow> fl list" where
  "fl_insort x [] = [x]"
| "fl_insort x (y # ys) = (if fl_le x y then x # y # ys else y # fl_insort x ys)"

definition fl_sort :: "fl list \<Rightarrow> fl list" where
  "fl_sort xs = foldr fl_insort xs []"

definition s_median :: "fl list \<Rightarrow> fl" where
  "s_median xs = (let ys = fl_sort (dropna xs); n = length ys
                  in if n = 0 then NaN
                     else if odd n then ys ! (n div 2)
                     else fl_div (fl_add (ys ! (n div 2 - 1)) (ys ! (n div 2))) (Fin 2))"

definition fl_min :: "fl \<Rightarrow> fl \<Rightarrow> fl" where
  "fl_min a b = (if fl_lt b a then b else a)"

definition fl_max :: "fl \<Rightarrow> fl \<Rightarrow> fl" where
  "fl_max a b = (if fl_lt a b then b else a)"

definition s_min :: "fl list \<Rightarrow> fl" where
  "s_min xs = (case dropna xs of [] \<Rightarrow> NaN | y # ys \<Rightarrow> foldl fl_min y ys)"

definition s_max :: "fl list \<Rightarrow> fl" where
  "s_max xs = (case dropna xs of [] \<Rightarrow> NaN | y # ys \<Rightarrow> foldl fl_max y ys)"

text \<open>
  The population standard deviation (denominator \<open>N\<close>): NumPy's \<open>std\<close> with its default
  \<open>ddof=0\<close>, which \<open>scipy.stats.zscore\<close> uses, and MongoDB's \<open>$stdDevPop\<close>.
\<close>

definition mean :: "real list \<Rightarrow> real" where
  "mean xs = sum_list xs / real (length xs)"

definition var_pop :: "real list \<Rightarrow> real" where
  "var_pop xs = (\<Sum>x\<leftarrow>xs. (x - mean xs)\<^sup>2) / real (length xs)"

definition std_pop :: "real list \<Rightarrow> real" where
  "std_pop xs = sqrt (var_pop xs)"

text \<open>
  \<open>scipy.stats.zscore(a)\<close> on a column of finite values: \<open>(a - mean) / std\<close> with the
  population standard deviation.  An empty column gives an empty result, and SciPy sets
  the whole result to NaN when the column is constant (every value equal to the first).
\<close>

definition isconst :: "real list \<Rightarrow> bool" where
  "isconst xs = (\<forall>x \<in> set xs. x = hd xs)"

definition zscore :: "real list \<Rightarrow> fl list" where
  "zscore xs = (if xs = [] then []
                else if isconst xs then replicate (length xs) NaN
                else map (\<lambda>x. fl_div (Fin (x - mean xs)) (Fin (std_pop xs))) xs)"


section \<open>Errors\<close>

text \<open>
  Every public function of the module runs its body under \<open>try\<close> and re-raises whatever
  was raised as \<open>ValueError\<close>, with a prefix naming the function followed by the text of
  the cause.  The error value of the embedding is that cause: the module's own two
  validation failures, and the failures raised by the libraries underneath and by the
  built-in functions of Python.
\<close>

datatype error =
    Invalid_metric_type string
  | Invalid_aggregation_period string
  | Key_error string
  | Mask_assign_mismatch nat nat
  | Length_mismatch nat nat
  | Inhomogeneous_shape
  | Round_type_error
  | Indexer_mismatch

fun is_validation_error :: "error \<Rightarrow> bool" where
  "is_validation_error (Invalid_metric_type m) = True"
| "is_validation_error (Invalid_aggregation_period p) = True"
| "is_validation_error e = False"

section \<open>Fleet metrics\<close>

definition METRIC_TYPES :: "(string \<times> string) list" where
  "METRIC_TYPES =
     [(''SPEED'', ''vehicle_speed''),
      (''DISTANCE'', ''distance_covered''),
      (''FUEL'', ''fuel_consumption''),
      (''IDLE_TIME'', ''idle_time''),
      (''DELIVERY_TIME'', ''delivery_time'')]"

definition AGGREGATION_PERIODS :: "(string \<times> string) list" where
  "AGGREGATION_PERIODS =
     [(''HOURLY'', ''1H''),
      (''DAILY'', ''1D''),
      (''WEEKLY'', ''1W''),
      (''MONTHLY'', ''1M'')]"

definition dict_values :: "('k \<times> 'v) list \<Rightarrow> 'v list" where
  "dict_values d = map snd d"

text \<open>
  The fleet data frame: a timestamp column (seconds), a vehicle column, and the named
  metric columns.  All columns of a frame have the same length.
\<close>

record fleet_frame =
  f_timestamp :: "real list"
  f_vehicle_id :: "string list"
  f_columns :: "(string \<times> real list) list"

text \<open>
  \<open>pd.Grouper(key='timestamp', freq=...)\<close> sends a timestamp to the label of its time
  bin.  That map belongs to pandas and is a parameter \<open>grouper\<close> here: the frequency
  string and the timestamp give the label.  The rows of the grouping are the triples of
  bin label, vehicle and metric value.
\<close>

type_synonym metric_row = "real \<times> string \<times> real"

definition frame_rows :: "(string \<Rightarrow> real \<Rightarrow> real) \<Rightarrow> fleet_frame \<Rightarrow> string \<Rightarrow> real list \<Rightarrow> metric_row list" where
  "frame_rows grouper fd freq vals =
     zip (map (grouper freq) (f_timestamp fd)) (zip (f_vehicle_id fd) vals)"

text \<open>
  The group keys that occur: the bins in ascending order, and the vehicles seen in a bin.
  Only the pairs of bin and vehicle that have a sample form a group.  pandas orders the
  vehicles of a bin by name; they stand in the order of the rows here, and no statistic
  depends on that order.
\<close>

definition bucket_keys :: "metric_row list \<Rightarrow> real list" where
  "bucket_keys rows = sort (remdups (map fst rows))"

definition bucket_vehicles :: "metric_row list \<Rightarrow> real \<Rightarrow> string list" where
  "bucket_vehicles rows b = remdups (map (fst \<circ> snd) (filter (\<lambda>r. fst r = b) rows))"

definition group_samples :: "metric_row list \<Rightarrow> real \<Rightarrow> string \<Rightarrow> real list" where
  "group_samples rows b v =
     map (\<lambda>r. snd (snd r)) (filter (\<lambda>r. fst r = b \<and> fst (snd r) = v) rows)"

definition group_values :: "metric_row list \<Rightarrow> real \<Rightarrow> string \<Rightarrow> fl list" where
  "group_values rows b v = map Fin (group_samples rows b v)"

text \<open>
  \<open>grouped.agg()\<close>: the statistic of every (bin, vehicle) group; \<open>vehicle_level\<close> is the
  slice of that Series for one bin, which \<open>.groupby(level=0)\<close> reduces once more.
\<close>

definition vehicle_level :: "(fl list \<Rightarrow> fl) \<Rightarrow> metric_row list \<Rightarrow> real \<Rightarrow> fl list" where
  "vehicle_level agg rows b = map (\<lambda>v. agg (group_values rows b v)) (bucket_vehicles rows b)"

definition rollup :: "(fl list \<Rightarrow> 'a) \<Rightarrow> (fl list \<Rightarrow> fl) \<Rightarrow> metric_row list \<Rightarrow> (real \<times> 'a) list" where
  "rollup outer inner rows = map (\<lambda>b. (b, outer (vehicle_level inner rows b))) (bucket_keys rows)"

record fleet_statistics =
  st_mean :: "(real \<times> fl) list"
  st_median :: "(real \<times> fl) list"
  st_std :: "(real \<times> fl) list"
  st_min :: "(real \<times> fl) list"
  st_max :: "(real \<times> fl) list"
  st_vehicle_count :: "(real \<times> nat) list"

record fleet_metrics =
  fm_aggregation_period :: string
  fm_metric_type :: string
  fm_statistics :: fleet_statistics

text \<open>
  \<open>calculate_fleet_metrics\<close>.  The two membership tests come first.  Selecting a metric
  column that the frame does not have raises \<open>KeyError\<close>.
\<close>

definition calculate_fleet_metrics ::
  "(string \<Rightarrow> real \<Rightarrow> real) \<Rightarrow> fleet_frame \<Rightarrow> string \<Rightarrow> string \<Rightarrow> error + fleet_metrics" where
  "calculate_fleet_metrics grouper fleet_data metric_type aggregation_period =
     (if metric_type \<notin> set (dict_values METRIC_TYPES) then
        Inl (Invalid_metric_type metric_type)
      else if aggregation_period \<notin> set (dict_values AGGREGATION_PERIODS) then
        Inl (Invalid_aggregation_period aggregation_period)
      else case map_of (f_columns fleet_data) metric_type of
        None \<Rightarrow> Inl (Key_error metric_type)
      | Some vals \<Rightarrow>
          let grouped = frame_rows grouper fleet_data aggregation_period vals;
              metrics = \<lparr>
                st_mean = rollup s_mean s_mean grouped,
                st_median = rollup s_median s_median grouped,
                st_std = rollup s_mean s_std grouped,
                st_min = rollup s_min s_min grouped,
                st_max = rollup s_max s_max grouped,
                st_vehicle_count = rollup s_count (\<lambda>g. Fin (real (s_count g))) grouped \<rparr>
          in Inr \<lparr> fm_aggregation_period = aggregation_period,
                   fm_metric_type = metric_type,
                   fm_statistics = metrics \<rparr>)"

text \<open>
  The sample standard deviation in closed form (denominator \<open>N - 1\<close>), undefined for
  fewer than two values; it is compared below with what \<^const>\<open>s_std\<close> computes.
\<close>

definition std_sample :: "real list \<Rightarrow> fl" where
  "std_sample xs = (if length xs \<le> 1 then NaN
                    else Fin (sqrt ((\<Sum>x\<leftarrow>xs. (x - mean xs)\<^sup>2) / (real (length xs) - 1))))"

text \<open>Example frames: three vehicles in one bin, and a single vehicle with three samples.\<close>

definition frame_medians :: fleet_frame where
  "frame_medians = \<lparr> f_timestamp = [0, 1, 2, 3, 4, 5, 6],
       f_vehicle_id = [''a'', ''a'', ''a'', ''b'', ''c'', ''c'', ''c''],
       f_columns = [(''vehicle_speed'', [0, 1, 2, 2, 8, 9, 10])] \<rparr>"

definition frame_one_vehicle :: fleet_frame where
  "frame_one_vehicle = \<lparr> f_timestamp = [0, 1, 2],
       f_vehicle_id = [''a'', ''a'', ''a''],
       f_columns = [(''vehicle_speed'', [0, 1, 2])] \<rparr>"

section \<open>Fleet performance summary\<close>

text \<open>
  \<open>AnalyticsModel.get_fleet_performance\<close> runs an aggregation pipeline on the metrics
  collection, which is passed here as the list of its documents.  The pipeline matches
  the documents of the time range (bounds included) and of the metric types asked for,
  groups them by metric type, and takes \<open>$avg\<close>, \<open>$max\<close>, \<open>$min\<close>, \<open>$stdDevPop\<close> and the
  count of every group; the average and the standard deviation are then rounded to two
  decimals.  The groups stand in the order of their last document here; MongoDB fixes no
  order.  A failure of the database is outside the embedding.
\<close>

record metric_document =
  doc_metric_type :: string
  doc_timestamp :: real
  doc_value :: real

record performance =
  average :: fl
  maximum :: fl
  minimum :: fl
  standard_deviation :: fl
  sample_size :: nat

definition get_fleet_performance ::
  "metric_document list \<Rightarrow> real \<times> real \<Rightarrow> string list \<Rightarrow> (string \<times> performance) list" where
  "get_fleet_performance metrics time_range metrics_to_include =
     (let matched = filter (\<lambda>d. fst time_range \<le> doc_timestamp d
                                \<and> doc_timestamp d \<le> snd time_range
                                \<and> doc_metric_type d \<in> set metrics_to_include) metrics
      in map (\<lambda>t. let vals = map doc_value (filter (\<lambda>d. doc_metric_type d = t) matched)
                  in (t, \<lparr> average = fl_round2 (Fin (mean vals)),
                           maximum = s_max (map Fin vals),
                           minimum = s_min (map Fin vals),
                           standard_deviation = fl_round2 (Fin (std_pop vals)),
                           sample_size = length vals \<rparr>))
             (remdups (map doc_metric_type matched)))"

text \<open>The samples of \<open>frame_one_vehicle\<close> as documents of the collection.\<close>

definition documents_one_vehicle :: "metric_document list" where
  "documents_one_vehicle =
     [\<lparr> doc_metric_type = ''vehicle_speed'', doc_timestamp = 0, doc_value = 0 \<rparr>,
      \<lparr> doc_metric_type = ''vehicle_speed'', doc_timestamp = 1, doc_value = 1 \<rparr>,
      \<lparr> doc_metric_type = ''vehicle_speed'', doc_timestamp = 2, doc_value = 2 \<rparr>]"

section \<open>Anomaly detection\<close>

text \<open>
  The operational data: the number of rows of the frame and its numeric columns, in
  column order, each a name and its values.  Every column has one value per row, no
  value is missing, and the names differ; the rows carry the default index
  \<open>0, 1, \<dots>\<close>, so that a row is known by its position.  Columns that are not numeric
  take no part in the detection; of them the frame records only that the rows are there,
  which is why the number of rows stands on its own.
\<close>

type_synonym table = "(string \<times> real list) list"

record op_frame =
  n_rows :: nat
  numeric_cols :: table

definition wf_frame :: "op_frame \<Rightarrow> bool" where
  "wf_frame f = (list_all (\<lambda>c. length (snd c) = n_rows f) (numeric_cols f)
                 \<and> distinct (map fst (numeric_cols f)))"

text \<open>The frame \<open>z_scores\<close>: per numeric column, the absolute z-scores of its values.\<close>

definition z_score_table :: "table \<Rightarrow> (string \<times> fl list) list" where
  "z_score_table t = map (\<lambda>c. (fst c, map fl_abs (zscore (snd c)))) t"

text \<open>Row \<open>i\<close> of a frame, as the pairs of column name and value.\<close>

definition frame_row :: "(string \<times> 'a list) list \<Rightarrow> nat \<Rightarrow> (string \<times> 'a) list" where
  "frame_row f i = map (\<lambda>c. (fst c, snd c ! i)) f"

text \<open>\<open>(row > threshold)\<close> and \<open>.any()\<close> on a row of \<open>z_scores\<close>.\<close>

definition exceeds :: "real \<Rightarrow> (string \<times> fl) list \<Rightarrow> (string \<times> fl) list" where
  "exceeds threshold row = filter (\<lambda>c. fl_gt (snd c) (Fin threshold)) row"

definition any_exceeds :: "real \<Rightarrow> (string \<times> fl) list \<Rightarrow> bool" where
  "any_exceeds threshold row = (exceeds threshold row \<noteq> [])"

text \<open>\<open>sep.join(names)\<close>.\<close>

fun str_join :: "string \<Rightarrow> string list \<Rightarrow> string" where
  "str_join sep [] = []"
| "str_join sep [x] = x"
| "str_join sep (x # y # ys) = x @ sep @ str_join sep (y # ys)"

text \<open>
  \<open>_categorize_anomalies\<close>: one label for every row of \<open>z_scores\<close>, flagged or not, in
  row order.
\<close>

definition categorize_row :: "real \<Rightarrow> (string \<times> fl) list \<Rightarrow> string" where
  "categorize_row threshold row =
     (if any_exceeds threshold row then
        (let affected_metrics = map fst (exceeds threshold row)
         in ''Anomaly in: '' @ str_join '', '' affected_metrics)
      else ''Normal'')"

definition categorize_anomalies :: "nat \<Rightarrow> (string \<times> fl list) list \<Rightarrow> real \<Rightarrow> string list" where
  "categorize_anomalies n z_scores threshold =
     map (\<lambda>i. categorize_row threshold (frame_row z_scores i)) [0..<n]"

text \<open>
  A row of the result: its index, its values in the numeric columns, and the two columns
  the detector adds.  The values can be missing (NaN): see the second case of
  \<open>detect_anomalies\<close>.
\<close>

record anomaly =
  a_index :: nat
  a_sample :: "(string \<times> fl) list"
  confidence_score :: fl
  anomaly_type :: string

text \<open>
  \<open>detect_anomalies\<close>.  The mask \<open>(z_scores > threshold).any(axis=1)\<close> selects the rows
  with an exceedance, and three cases follow.

  \<^item> The frame has rows and no numeric column.  Then \<open>z_scores\<close> has no row, the mask
    has no entry for the rows of the frame, and pandas refuses it as their indexer.

  \<^item> No row is selected.  The frame \<open>anomalies\<close> is empty; the empty column of
    confidence scores is added to it; then the Series of labels, which has one entry for
    every row of the input, is assigned to the empty frame, and pandas rebuilds the frame
    on the index of that Series.  The result has one row per input row: the values and
    the confidence score are missing, and the label is the label of the row, \<open>Normal\<close>.

  \<^item> Some row is selected.  Each selected row gets the maximum of its row of \<open>z_scores\<close>,
    NaN skipped, as its confidence score, and the Series of labels is aligned on the
    index, so that the selected row \<open>i\<close> receives label \<open>i\<close>.
\<close>

definition detect_anomalies :: "op_frame \<Rightarrow> real \<Rightarrow> error + anomaly list" where
  "detect_anomalies operational_data threshold =
     (let n = n_rows operational_data;
          numeric = numeric_cols operational_data;
          z_scores = z_score_table numeric;
          selected = filter (\<lambda>i. any_exceeds threshold (frame_row z_scores i)) [0..<n];
          categories = categorize_anomalies n z_scores threshold
      in if numeric = [] \<and> 0 < n then Inl Indexer_mismatch
         else if selected = [] then
           Inr (map (\<lambda>i. \<lparr> a_index = i,
                            a_sample = map (\<lambda>c. (fst c, NaN)) numeric,
                            confidence_score = NaN,
                            anomaly_type = categories ! i \<rparr>) [0..<n])
         else
           Inr (map (\<lambda>i. \<lparr> a_index = i,
                            a_sample = map (\<lambda>c. (fst c, Fin (snd c ! i))) numeric,
                            confidence_score = s_max (map snd (frame_row z_scores i)),
                            anomaly_type = categories ! i \<rparr>) selected))"

text \<open>
  What the specification asks of the label: the names of the columns whose absolute
  z-score at row \<open>i\<close> is above the threshold, in column order.
\<close>

definition exceeding_columns :: "table \<Rightarrow> real \<Rightarrow> nat \<Rightarrow> string list" where
  "exceeding_columns t threshold i =
     map fst (filter (\<lambda>c. fl_gt (fl_abs (zscore (snd c) ! i)) (Fin threshold)) t)"

text \<open>The frame without the numeric column of a given name.\<close>

definition without_column :: "string \<Rightarrow> op_frame \<Rightarrow> op_frame" where
  "without_column nm f = f \<lparr> numeric_cols := filter (\<lambda>c. fst c \<noteq> nm) (numeric_cols f) \<rparr>"

text \<open>Example frames.\<close>

definition table_two :: table where
  "table_two = [(''speed'', [0, 0, 0, 0, 5]), (''fuel'', [10, 10, 10, 10, 5])]"

definition frame_two :: op_frame where
  "frame_two = \<lparr> n_rows = 5, numeric_cols = table_two \<rparr>"

definition table_constant :: table where
  "table_constant = [(''load'', [5, 5, 5, 5, 5]), (''speed'', [0, 0, 0, 0, 5])]"

definition frame_constant :: op_frame where
  "frame_constant = \<lparr> n_rows = 5, numeric_cols = table_constant \<rparr>"

section \<open>Delivery efficiency\<close>

record delivery =
  delivery_time :: real
  actual_time :: real
  planned_time :: real
  distance :: real
  actual_distance :: real
  planned_distance :: real
  fuel_consumption :: real
  route_id :: string
  stop_count :: real

record delivery_stats =
  avg_delivery_time :: fl
  std_delivery_time :: fl
  on_time_percentage :: fl

record route_stats =
  avg_distance_per_delivery :: fl
  avg_stops_per_route :: "(string \<times> fl) list"
  distance_utilization :: fl

record efficiency_result =
  delivery_statistics :: delivery_stats
  route_efficiency :: route_stats
  overall_efficiency_score :: "fl list"
  recommendations :: "string list"

text \<open>\<open>parameters.get(key, default)\<close> on the dictionary of efficiency parameters.\<close>

definition dict_get :: "('k \<rightharpoonup> 'v) \<Rightarrow> 'k \<Rightarrow> 'v \<Rightarrow> 'v" where
  "dict_get d k dflt = (case d k of None \<Rightarrow> dflt | Some v \<Rightarrow> v)"

definition generate_efficiency_recommendations ::
  "delivery_stats \<Rightarrow> route_stats \<Rightarrow> (string \<rightharpoonup> real) \<Rightarrow> string list" where
  "generate_efficiency_recommendations stats route parameters =
     (if fl_lt (on_time_percentage stats) (Fin (dict_get parameters ''target_on_time'' 95))
      then [''Improve on-time delivery performance through better route optimization'']
      else [])
     @ (if fl_lt (distance_utilization route)
             (Fin (dict_get parameters ''target_utilization'' 90))
        then [''Optimize route planning to reduce excess distance traveled'']
        else [])"

text \<open>
  The frame \<open>scores\<close>: the z-scores of the three feature columns, in the order
  \<open>delivery_time_score\<close>, \<open>distance_score\<close>, \<open>fuel_efficiency_score\<close>.
\<close>

definition efficiency_scores :: "delivery list \<Rightarrow> fl list list" where
  "efficiency_scores data =
     [zscore (map delivery_time data),
      zscore (map distance data),
      zscore (map fuel_consumption data)]"

text \<open>
  \<open>np.mean([a, b, 1 - abs(scores.mean())])\<close>.  \<open>scores.mean()\<close> is the Series of the
  three column means, so the list holds two numbers and a Series of three.  What NumPy
  makes of such a list depends on its version, and the version is a parameter here.
  Before 1.24 the list becomes an array of three objects, whose sum adds the two numbers
  to every entry of the Series, and the mean is that sum over 3, entry by entry: an array
  of three values, not a number.  From 1.24 on (the module names 1.24.0) the list is
  refused as an inhomogeneous shape, with a \<open>ValueError\<close>.
\<close>

datatype numpy_ragged = Ragged_object_array | Ragged_value_error

fun np_mean_mixed :: "numpy_ragged \<Rightarrow> fl \<Rightarrow> fl \<Rightarrow> fl list \<Rightarrow> error + fl list" where
  "np_mean_mixed Ragged_value_error a b s = Inl Inhomogeneous_shape"
| "np_mean_mixed Ragged_object_array a b s =
     Inr (map (\<lambda>x. fl_div (fl_add (fl_add a b) x) (Fin 3)) s)"

text \<open>
  \<open>round(x, 2)\<close>, the built-in function of Python, on an array of NumPy.  The built-in
  asks its argument for \<open>__round__\<close>; an array has no such method (it is \<open>np.round\<close>
  that rounds arrays), and the call raises \<open>TypeError\<close>, whatever the array holds.
\<close>

definition py_round_array :: "fl list \<Rightarrow> error + fl list" where
  "py_round_array x = Inl Round_type_error"

text \<open>
  \<open>analyze_delivery_efficiency\<close>.  The statistics are computed first.  The mean of the
  mixed list follows, and the result dictionary is built entry by entry, in the order of
  the source: the score, \<open>round(overall_efficiency * 100, 2)\<close>, comes before the
  recommendations.  Either \<open>np.mean\<close> raises or \<open>round\<close> does.
\<close>

definition analyze_delivery_efficiency ::
  "numpy_ragged \<Rightarrow> delivery list \<Rightarrow> (string \<rightharpoonup> real) \<Rightarrow> error + efficiency_result" where
  "analyze_delivery_efficiency numpy delivery_data efficiency_parameters =
     (let delivery_stats = \<lparr>
            avg_delivery_time = s_mean (map (Fin \<circ> delivery_time) delivery_data),
            std_delivery_time = s_std (map (Fin \<circ> delivery_time) delivery_data),
            on_time_percentage =
              fl_mul (s_mean (map (\<lambda>d. Fin (if actual_time d \<le> planned_time d then 1 else 0))
                                delivery_data)) (Fin 100) \<rparr>;
          route_efficiency = \<lparr>
            avg_distance_per_delivery = s_mean (map (Fin \<circ> distance) delivery_data),
            avg_stops_per_route =
              map (\<lambda>r. (r, s_mean (map (Fin \<circ> stop_count)
                                   (filter (\<lambda>d. route_id d = r) delivery_data))))
                  (remdups (map route_id delivery_data)),
            distance_utilization =
              fl_mul (s_mean (map (\<lambda>d. fl_div (Fin (actual_distance d))
                                              (Fin (planned_distance d))) delivery_data))
                     (Fin 100) \<rparr>;
          scores = efficiency_scores delivery_data
      in case np_mean_mixed numpy
                (fl_div (on_time_percentage delivery_stats) (Fin 100))
                (fl_div (distance_utilization route_efficiency) (Fin 100))
                (map (\<lambda>m. fl_sub (Fin 1) (fl_abs m)) (map s_mean scores)) of
           Inl e \<Rightarrow> Inl e
         | Inr overall_efficiency \<Rightarrow>
             (case py_round_array (map (\<lambda>x. fl_mul x (Fin 100)) overall_efficiency) of
                Inl e \<Rightarrow> Inl e
              | Inr score \<Rightarrow>
                  Inr \<lparr> delivery_statistics = delivery_stats,
                        route_efficiency = route_efficiency,
                        overall_efficiency_score = score,
                        recommendations =
                          generate_efficiency_recommendations delivery_stats route_efficiency
                            efficiency_parameters \<rparr>))"

text \<open>Example batches: every delivery on time and ten times its planned distance; one delivery.\<close>

definition delivery_far :: "real \<Rightarrow> delivery" where
  "delivery_far x = \<lparr> delivery_time = x, actual_time = 0, planned_time = 0, distance = x,
       actual_distance = 10, planned_distance = 1, fuel_consumption = x,
       route_id = ''r'', stop_count = 1 \<rparr>"

definition batch_far :: "delivery list" where
  "batch_far = [delivery_far 0, delivery_far 1, delivery_far 2]"

definition batch_single :: "delivery list" where
  "batch_single = [delivery_far 5]"

section \<open>Kinematics\<close>

text \<open>
  A location sample; the timestamp is in seconds.  The frame of samples carries no
  missing values.
\<close>

record location_sample =
  vehicle_id :: string
  timestamp :: real
  latitude :: real
  longitude :: real

text \<open>
  The calculation options are a dictionary from option names to Python values.  The
  function reads one key, \<open>remove_outliers\<close>, and tests the value for truth.
\<close>

datatype pyval = PNone | PBool bool | PNum real | PStr string

fun truthy :: "pyval \<Rightarrow> bool" where
  "truthy PNone = False"
| "truthy (PBool b) = b"
| "truthy (PNum x) = (x \<noteq> 0)"
| "truthy (PStr s) = (s \<noteq> [])"

text \<open>
  A row of the result.  The vehicle and the timestamp of a row can be missing (NaN and
  NaT in pandas): see the last case of \<open>process_location_data\<close>.
\<close>

record derived_sample =
  ds_vehicle_id :: "string option"
  ds_timestamp :: "real option"
  ds_speed :: fl
  ds_distance :: fl
  ds_acceleration :: fl

text \<open>
  \<open>groupby('vehicle_id')[column].diff()\<close>: the difference to the previous row of the
  same vehicle, NaN on the first row of a vehicle.  \<open>prev\<close> holds the last value seen
  for every vehicle.
\<close>

fun group_diff :: "(string \<rightharpoonup> real) \<Rightarrow> (string \<times> real) list \<Rightarrow> fl list" where
  "group_diff prev [] = []"
| "group_diff prev (r # rows) =
     (case prev (fst r) of None \<Rightarrow> NaN | Some p \<Rightarrow> Fin (snd r - p))
       # group_diff (prev(fst r \<mapsto> snd r)) rows"

definition time_diffs :: "location_sample list \<Rightarrow> fl list" where
  "time_diffs rows = group_diff Map.empty (map (\<lambda>r. (vehicle_id r, timestamp r)) rows)"

text \<open>
  \<open>np.sqrt(np.sum((coords[1:] - coords[:-1])**2, axis=1)) * 111.32\<close>: one value for
  every pair of neighbouring rows of the whole frame, whatever their vehicles.
\<close>

definition coord_steps :: "location_sample list \<Rightarrow> real list" where
  "coord_steps rows =
     map (\<lambda>(b, a). sqrt ((latitude b - latitude a)\<^sup>2 + (longitude b - longitude a)\<^sup>2)
                     * (11132 / 100))
         (zip (tl rows) (butlast rows))"

text \<open>\<open>vehicle_id.shift() == vehicle_id\<close>: false on the first row.\<close>

definition same_vehicle_mask :: "location_sample list \<Rightarrow> bool list" where
  "same_vehicle_mask rows =
     (case rows of [] \<Rightarrow> []
      | r # rs \<Rightarrow> False # map (\<lambda>(p, c). vehicle_id p = vehicle_id c) (zip rows rs))"

text \<open>
  \<open>distances[mask] = values\<close>.  NumPy writes the values, in order, to the positions
  where the mask is true.  A single value is broadcast to all of them; otherwise the
  number of values must be the number of true positions, or the assignment raises
  \<open>ValueError\<close>.
\<close>

fun put_mask :: "real list \<Rightarrow> bool list \<Rightarrow> real list \<Rightarrow> real list" where
  "put_mask (d # ds) (m # ms) (v # vs) =
     (if m then v # put_mask ds ms vs else d # put_mask ds ms (v # vs))"
| "put_mask ds ms vs = ds"

definition mask_assign :: "real list \<Rightarrow> bool list \<Rightarrow> real list \<Rightarrow> error + real list" where
  "mask_assign arr msk vals =
     (let k = length (filter id msk)
      in if length vals = 1 then Inr (put_mask arr msk (replicate k (hd vals)))
         else if length vals = k then Inr (put_mask arr msk vals)
         else Inl (Mask_assign_mismatch (length vals) k))"

definition batch_distances :: "location_sample list \<Rightarrow> error + real list" where
  "batch_distances rows =
     mask_assign (replicate (length rows) 0) (same_vehicle_mask rows) (coord_steps rows)"

text \<open>
  \<open>np.where(time_diff > 0, distances / time_diff * 3600, 0)\<close>.  The quotient is taken
  only where the time difference is a positive number; NaN, on the first row of a
  vehicle, compares false.  The division by a zero time difference that NumPy evaluates
  on the side is discarded and raises nothing.
\<close>

definition speed_where :: "fl \<Rightarrow> real \<Rightarrow> real" where
  "speed_where td d = (case td of Fin t \<Rightarrow> if 0 < t then d / t * 3600 else 0 | _ \<Rightarrow> 0)"

definition batch_speeds :: "location_sample list \<Rightarrow> real list \<Rightarrow> real list" where
  "batch_speeds rows distances = map (\<lambda>(td, d). speed_where td d) (zip (time_diffs rows) distances)"

text \<open>
  \<open>np.abs(stats.zscore(speed)) < 3\<close>, over the speed column of the whole frame.  The
  bound is the literal 3.
\<close>

definition outlier_keep :: "real list \<Rightarrow> bool list" where
  "outlier_keep speed = map (\<lambda>z. fl_lt (fl_abs z) (Fin 3)) (zscore speed)"

definition outliers_requested :: "(string \<rightharpoonup> pyval) \<Rightarrow> bool" where
  "outliers_requested calculation_options =
     truthy (dict_get calculation_options ''remove_outliers'' (PBool True))"

text \<open>
  The rows that are returned when every row of the frame is still there: the distance
  column is assigned, and the acceleration is the difference of the speed within the
  vehicle over the time difference.
\<close>

definition derive_rows :: "location_sample list \<Rightarrow> real list \<Rightarrow> real list \<Rightarrow> derived_sample list" where
  "derive_rows rows speed distances =
     map (\<lambda>(r, td, s, d, sd).
            \<lparr> ds_vehicle_id = Some (vehicle_id r), ds_timestamp = Some (timestamp r),
              ds_speed = Fin s, ds_distance = Fin d, ds_acceleration = fl_div sd td \<rparr>)
         (zip rows (zip (time_diffs rows) (zip speed (zip distances
            (group_diff Map.empty (zip (map vehicle_id rows) speed))))))"

text \<open>
  \<open>process_location_data\<close>.  The frame is sorted by timestamp; pandas promises no
  order among equal timestamps, and they keep their input order here.  After the outlier
  filter the full-length array \<open>distances\<close> is assigned as a
  column.  If no row was dropped this is the column of distances.  If some rows were
  dropped but not all, pandas refuses the assignment, the lengths differing.  If all rows
  were dropped, pandas rebuilds the empty frame on the index of the assigned values: the
  result has one row per input row, with the distance and nothing else.  The final
  conversion to \<open>float32\<close> is the identity on the idealised values.
\<close>

definition process_location_data ::
  "location_sample list \<Rightarrow> (string \<rightharpoonup> pyval) \<Rightarrow> error + derived_sample list" where
  "process_location_data location_data calculation_options =
     (let sorted_rows = sort_key timestamp location_data
      in case batch_distances sorted_rows of
           Inl e \<Rightarrow> Inl e
         | Inr distances \<Rightarrow>
             let speed = batch_speeds sorted_rows distances;
                 keep = (if outliers_requested calculation_options then outlier_keep speed
                         else replicate (length sorted_rows) True);
                 kept = map snd (filter fst (zip keep sorted_rows))
             in if length kept = length sorted_rows then
                  Inr (derive_rows sorted_rows speed distances)
                else if kept = [] then
                  Inr (map (\<lambda>d. \<lparr> ds_vehicle_id = None, ds_timestamp = None, ds_speed = NaN,
                                   ds_distance = Fin d, ds_acceleration = NaN \<rparr>) distances)
                else Inl (Length_mismatch (length distances) (length kept)))"

text \<open>Example batches: one sample; one vehicle sampled five times, once an hour.\<close>

definition batch_one :: "location_sample list" where
  "batch_one = [\<lparr> vehicle_id = ''v1'', timestamp = 0, latitude = 40, longitude = - 74 \<rparr>]"




definition batch_pair :: "location_sample list" where
  "batch_pair =
     [\<lparr> vehicle_id = ''v1'', timestamp = 0, latitude = 0, longitude = 0 \<rparr>,
      \<lparr> vehicle_id = ''v2'', timestamp = 10, latitude = 1, longitude = 0 \<rparr>]"

section \<open>Verified properties\<close>

subsection \<open>Series statistics on finite values\<close>

lemma dropna_map_Fin: "dropna (map Fin xs) = map Fin xs"
  by (induction xs) (simp_all add: dropna_def)

lemma foldl_fl_add_Fin: "foldl fl_add (Fin a) (map Fin xs) = Fin (a + sum_list xs)"
  by (induction xs arbitrary: a) (simp_all add: add.assoc)

lemma fl_sum_map_Fin: "fl_sum (map Fin xs) = Fin (sum_list xs)"
  by (simp add: fl_sum_def foldl_fl_add_Fin)

lemma s_mean_map_Fin: "xs \<noteq> [] \<Longrightarrow> s_mean (map Fin xs) = Fin (mean xs)"
  by (simp add: s_mean_def dropna_map_Fin fl_sum_map_Fin mean_def)

lemma s_std_map_Fin: "s_std (map Fin xs) = std_sample xs"
proof (cases "length xs \<le> 1")
  case True
  then show ?thesis by (simp add: s_std_def std_sample_def dropna_map_Fin)
next
  case False
  then have n: "1 < length xs" by simp
  then have ne: "real (length xs) \<noteq> 0" by auto
  define m where "m = mean xs"
  define S where "S = (\<Sum>x\<leftarrow>xs. (x - m)\<^sup>2)"
  have avg: "fl_div (fl_sum (map Fin xs)) (Fin (real (length xs))) = Fin m"
    using ne by (simp add: fl_sum_map_Fin mean_def m_def)
  have sq: "map (\<lambda>y. fl_mul (fl_sub y (Fin m)) (fl_sub y (Fin m))) (map Fin xs)
            = map Fin (map (\<lambda>x. (x - m)\<^sup>2) xs)"
    by (simp add: fl_sub_def power2_eq_square)
  have nonneg: "0 \<le> S"
    unfolding S_def by (rule sum_list_nonneg) auto
  have d: "real (length xs - 1) = real (length xs) - 1" using n by (simp add: of_nat_diff)
  have pos: "0 < real (length xs) - 1" using n by simp
  have nn2: "\<not> S / (real (length xs) - 1) < 0"
    using nonneg pos by (simp add: not_less)
  have "s_std (map Fin xs) = fl_sqrt (fl_div (fl_sum (map Fin (map (\<lambda>x. (x - m)\<^sup>2) xs)))
            (Fin (real (length xs - 1))))"
    using False unfolding s_std_def dropna_map_Fin Let_def length_map avg sq by simp
  also have "\<dots> = fl_sqrt (fl_div (Fin S) (Fin (real (length xs) - 1)))"
    by (simp only: fl_sum_map_Fin S_def d)
  also have "\<dots> = Fin (sqrt (S / (real (length xs) - 1)))"
    using pos nn2 by simp
  finally show ?thesis
    using False by (simp add: std_sample_def S_def m_def)
qed

lemma set_bucket_keys: "set (bucket_keys rows) = fst ` set rows"
  by (simp add: bucket_keys_def)

lemma map_of_graph:
  "map_of (map (\<lambda>k. (k, f k)) ks) k = (if k \<in> set ks then Some (f k) else None)"
  by (induction ks) simp_all

lemma map_of_rollup:
  "map_of (rollup outer inner rows) b =
     (if b \<in> fst ` set rows then Some (outer (vehicle_level inner rows b)) else None)"
  unfolding rollup_def set_bucket_keys[symmetric] by (rule map_of_graph)

lemma set_bucket_vehicles:
  "set (bucket_vehicles rows b) = {v. \<exists>x. (b, v, x) \<in> set rows}"
  by (force simp: bucket_vehicles_def)

lemma distinct_bucket_vehicles: "distinct (bucket_vehicles rows b)"
  by (simp add: bucket_vehicles_def)

lemma vehicle_count_rollup:
  "s_count (vehicle_level (\<lambda>g. Fin (real (s_count g))) rows b) = card {v. \<exists>x. (b, v, x) \<in> set rows}"
proof -
  have "s_count (map (\<lambda>v. Fin (f v)) vs) = length vs" for f :: "string \<Rightarrow> real" and vs
    by (induction vs) (simp_all add: s_count_def dropna_def)
  then have "s_count (vehicle_level (\<lambda>g. Fin (real (s_count g))) rows b) = length (bucket_vehicles rows b)"
    by (simp add: vehicle_level_def)
  also have "\<dots> = card (set (bucket_vehicles rows b))"
    by (simp add: distinct_card distinct_bucket_vehicles)
  finally show ?thesis by (simp add: set_bucket_vehicles)
qed

lemma calculate_fleet_metrics_valid:
  assumes "metric_type \<in> set (dict_values METRIC_TYPES)"
    and "aggregation_period \<in> set (dict_values AGGREGATION_PERIODS)"
    and "map_of (f_columns fd) metric_type = Some vals"
  shows "calculate_fleet_metrics grouper fd metric_type aggregation_period =
     Inr \<lparr> fm_aggregation_period = aggregation_period, fm_metric_type = metric_type,
           fm_statistics = \<lparr>
              st_mean = rollup s_mean s_mean (frame_rows grouper fd aggregation_period vals),
              st_median = rollup s_median s_median (frame_rows grouper fd aggregation_period vals),
              st_std = rollup s_mean s_std (frame_rows grouper fd aggregation_period vals),
              st_min = rollup s_min s_min (frame_rows grouper fd aggregation_period vals),
              st_max = rollup s_max s_max (frame_rows grouper fd aggregation_period vals),
              st_vehicle_count = rollup s_count (\<lambda>g. Fin (real (s_count g)))
                 (frame_rows grouper fd aggregation_period vals) \<rparr> \<rparr>"
  using assms by (simp add: calculate_fleet_metrics_def Let_def)

subsection \<open>Validation of the aggregation request\<close>

text \<open>
  Claim C8.  \<open>calculate_fleet_metrics\<close> fails with one of its two validation errors
  exactly when the metric type is not a value of \<open>METRIC_TYPES\<close> or the aggregation
  period is not a value of \<open>AGGREGATION_PERIODS\<close> (the frequency codes of HOURLY, DAILY,
  WEEKLY and MONTHLY).  The metric type is checked first, the period second, and the error
  returned does not depend on the data: nothing has been grouped or aggregated when it is
  raised, and it reaches the caller as the function's result.
\<close>

theorem fleet_metrics_validation:
  "((\<exists>e. calculate_fleet_metrics grouper fd metric_type aggregation_period = Inl e
         \<and> is_validation_error e)
     \<longleftrightarrow> (metric_type \<notin> set (dict_values METRIC_TYPES)
          \<or> aggregation_period \<notin> set (dict_values AGGREGATION_PERIODS)))
   \<and> (metric_type \<notin> set (dict_values METRIC_TYPES) \<longrightarrow>
        calculate_fleet_metrics grouper fd metric_type aggregation_period
          = Inl (Invalid_metric_type metric_type))
   \<and> (metric_type \<in> set (dict_values METRIC_TYPES)
        \<and> aggregation_period \<notin> set (dict_values AGGREGATION_PERIODS) \<longrightarrow>
        calculate_fleet_metrics grouper fd metric_type aggregation_period
          = Inl (Invalid_aggregation_period aggregation_period))
   \<and> set (dict_values METRIC_TYPES) =
        {''vehicle_speed'', ''distance_covered'', ''fuel_consumption'', ''idle_time'',
         ''delivery_time''}
   \<and> set (dict_values AGGREGATION_PERIODS) = {''1H'', ''1D'', ''1W'', ''1M''}
   \<and> map (\<lambda>k. map_of AGGREGATION_PERIODS k) [''HOURLY'', ''DAILY'', ''WEEKLY'', ''MONTHLY'']
        = [Some ''1H'', Some ''1D'', Some ''1W'', Some ''1M'']"
proof -
  have a: "(\<exists>e. calculate_fleet_metrics grouper fd metric_type aggregation_period = Inl e
         \<and> is_validation_error e)
     \<longleftrightarrow> (metric_type \<notin> set (dict_values METRIC_TYPES)
          \<or> aggregation_period \<notin> set (dict_values AGGREGATION_PERIODS))"
    by (auto simp: calculate_fleet_metrics_def Let_def split: option.splits if_splits)
  have b: "set (dict_values METRIC_TYPES) =
        {''vehicle_speed'', ''distance_covered'', ''fuel_consumption'', ''idle_time'',
         ''delivery_time''}"
    by (simp add: dict_values_def METRIC_TYPES_def)
  have c: "set (dict_values AGGREGATION_PERIODS) = {''1H'', ''1D'', ''1W'', ''1M''}"
    by (simp add: dict_values_def AGGREGATION_PERIODS_def)
  have d: "map (\<lambda>k. map_of AGGREGATION_PERIODS k) [''HOURLY'', ''DAILY'', ''WEEKLY'', ''MONTHLY'']
        = [Some ''1H'', Some ''1D'', Some ''1W'', Some ''1M'']"
    by (simp add: AGGREGATION_PERIODS_def)
  show ?thesis
    using a b c d by (simp add: calculate_fleet_metrics_def)
qed

text \<open>
  The test suite's metric name \<open>speed\<close> is rejected, and so is the name \<open>DAILY\<close> of
  a period in place of its code.
\<close>

theorem fleet_metrics_validation_witness:
  "''speed'' \<notin> set (dict_values METRIC_TYPES)
   \<and> calculate_fleet_metrics (\<lambda>p t. 0) frame_medians ''speed'' ''1D''
        = Inl (Invalid_metric_type ''speed'')
   \<and> ''vehicle_speed'' \<in> set (dict_values METRIC_TYPES)
   \<and> ''DAILY'' \<notin> set (dict_values AGGREGATION_PERIODS)
   \<and> calculate_fleet_metrics (\<lambda>p t. 0) frame_medians ''vehicle_speed'' ''DAILY''
        = Inl (Invalid_aggregation_period ''DAILY'')"
  using fleet_metrics_validation [of "\<lambda>p t. 0" frame_medians "''speed''" "''1D''"]
    fleet_metrics_validation [of "\<lambda>p t. 0" frame_medians "''vehicle_speed''" "''DAILY''"]
  by simp

subsection \<open>The two-level rollup\<close>

lemmas stat_eval = vehicle_level_def bucket_vehicles_def group_values_def group_samples_def
  s_mean_def s_median_def s_std_def s_min_def s_max_def s_count_def dropna_def fl_sum_def
  fl_sort_def fl_sub_def fl_min_def fl_max_def

lemma valid_speed_daily:
  "''vehicle_speed'' \<in> set (dict_values METRIC_TYPES)"
  "''1D'' \<in> set (dict_values AGGREGATION_PERIODS)"
  by (simp_all add: dict_values_def METRIC_TYPES_def AGGREGATION_PERIODS_def)

lemma frame_medians_column:
  "map_of (f_columns frame_medians) ''vehicle_speed'' = Some [0, 1, 2, 2, 8, 9, 10]"
  by (simp add: frame_medians_def)

lemma frame_medians_rows:
  "frame_rows (\<lambda>p t. 0) frame_medians ''1D'' [0, 1, 2, 2, 8, 9, 10] =
     [(0, ''a'', 0), (0, ''a'', 1), (0, ''a'', 2), (0, ''b'', 2), (0, ''c'', 8), (0, ''c'', 9),
      (0, ''c'', 10)]"
  by (simp add: frame_rows_def frame_medians_def)

lemma rollup_one_bucket:
  "bucket_keys rows = [b] \<Longrightarrow> rollup outer inner rows = [(b, outer (vehicle_level inner rows b))]"
  by (simp add: rollup_def)

lemma frame_medians_keys:
  "bucket_keys [(0, ''a'', 0), (0, ''a'', 1), (0, ''a'', 2), (0, ''b'', 2), (0, ''c'', 8),
      (0, ''c'', 9), (0::real, ''c'', 10::real)] = [0]"
  by (simp add: bucket_keys_def)

text \<open>
  Claim C3 fails on the code in one place.  Three vehicles share a bin; their medians are
  1, 2 and 9.  The bin's median is 2, the median of the three, where the claim has their
  mean, 4.
\<close>

theorem fleet_metrics_median_of_medians_counterexample:
  "calculate_fleet_metrics (\<lambda>p t. 0) frame_medians ''vehicle_speed'' ''1D'' =
     Inr \<lparr> fm_aggregation_period = ''1D'', fm_metric_type = ''vehicle_speed'',
       fm_statistics = \<lparr> st_mean = [(0, Fin 4)], st_median = [(0, Fin 2)],
         st_std = [(0, Fin 1)], st_min = [(0, Fin 0)], st_max = [(0, Fin 10)],
         st_vehicle_count = [(0, 3)] \<rparr> \<rparr>
   \<and> vehicle_level s_median
        (frame_rows (\<lambda>p t. 0) frame_medians ''1D'' [0, 1, 2, 2, 8, 9, 10]) 0
       = [Fin 1, Fin 2, Fin 9]
   \<and> s_mean [Fin 1, Fin 2, Fin 9] = Fin 4
   \<and> s_median [Fin 1, Fin 2, Fin 9] = Fin 2"
proof -
  let ?rows = "[(0, ''a'', 0), (0, ''a'', 1), (0, ''a'', 2), (0, ''b'', 2), (0, ''c'', 8),
      (0, ''c'', 9), (0::real, ''c'', 10::real)]"
  have m1: "rollup s_mean s_mean ?rows = [(0, Fin 4)]"
    by (simp add: rollup_one_bucket [OF frame_medians_keys] stat_eval)
  have m2: "rollup s_median s_median ?rows = [(0, Fin 2)]"
    by (simp add: rollup_one_bucket [OF frame_medians_keys] stat_eval)
  have m3: "rollup s_mean s_std ?rows = [(0, Fin 1)]"
    by (simp add: rollup_one_bucket [OF frame_medians_keys] stat_eval)
  have m4: "rollup s_min s_min ?rows = [(0, Fin 0)]"
    by (simp add: rollup_one_bucket [OF frame_medians_keys] stat_eval)
  have m5: "rollup s_max s_max ?rows = [(0, Fin 10)]"
    by (simp add: rollup_one_bucket [OF frame_medians_keys] stat_eval)
  have m6: "rollup s_count (\<lambda>g. Fin (real (s_count g))) ?rows = [(0, 3)]"
    by (simp add: rollup_one_bucket [OF frame_medians_keys] stat_eval)
  have a: "calculate_fleet_metrics (\<lambda>p t. 0) frame_medians ''vehicle_speed'' ''1D'' =
     Inr \<lparr> fm_aggregation_period = ''1D'', fm_metric_type = ''vehicle_speed'',
       fm_statistics = \<lparr> st_mean = [(0, Fin 4)], st_median = [(0, Fin 2)],
         st_std = [(0, Fin 1)], st_min = [(0, Fin 0)], st_max = [(0, Fin 10)],
         st_vehicle_count = [(0, 3)] \<rparr> \<rparr>"
    unfolding calculate_fleet_metrics_valid [OF valid_speed_daily frame_medians_column]
      frame_medians_rows m1 m2 m3 m4 m5 m6 by (rule refl)
  have b: "vehicle_level s_median
        (frame_rows (\<lambda>p t. 0) frame_medians ''1D'' [0, 1, 2, 2, 8, 9, 10]) 0
       = [Fin 1, Fin 2, Fin 9]"
    unfolding frame_medians_rows by (simp add: stat_eval)
  have c: "s_mean [Fin 1, Fin 2, Fin 9] = Fin 4"
    by (simp add: s_mean_def dropna_def fl_sum_def)
  have d: "s_median [Fin 1, Fin 2, Fin 9] = Fin 2"
    by (simp add: s_median_def dropna_def fl_sort_def)
  show ?thesis by (intro conjI a b c d)
qed

text \<open>
  Claim C3, as the code has it.  For a valid request on a frame that has the metric
  column, every bin that holds a sample reports the two-level rollup: the mean of the
  vehicles' means, the \<^emph>\<open>median\<close> of the vehicles' medians, the mean of the vehicles'
  standard deviations (those that are defined), the minimum of their minima, the maximum
  of their maxima, and the number of vehicles with a sample in the bin.  A bin without
  samples is absent from every statistic.
\<close>

theorem fleet_metrics_rollup:
  assumes "metric_type \<in> set (dict_values METRIC_TYPES)"
    and "aggregation_period \<in> set (dict_values AGGREGATION_PERIODS)"
    and "map_of (f_columns fd) metric_type = Some vals"
  shows "\<exists>r. calculate_fleet_metrics grouper fd metric_type aggregation_period = Inr r \<and>
    (\<forall>b. let rows = frame_rows grouper fd aggregation_period vals; st = fm_statistics r in
       if b \<in> fst ` set rows then
         map_of (st_mean st) b = Some (s_mean (vehicle_level s_mean rows b)) \<and>
         map_of (st_median st) b = Some (s_median (vehicle_level s_median rows b)) \<and>
         map_of (st_std st) b = Some (s_mean (vehicle_level s_std rows b)) \<and>
         map_of (st_min st) b = Some (s_min (vehicle_level s_min rows b)) \<and>
         map_of (st_max st) b = Some (s_max (vehicle_level s_max rows b)) \<and>
         map_of (st_vehicle_count st) b = Some (card {v. \<exists>x. (b, v, x) \<in> set rows})
       else
         map_of (st_mean st) b = None \<and> map_of (st_median st) b = None \<and>
         map_of (st_std st) b = None \<and> map_of (st_min st) b = None \<and>
         map_of (st_max st) b = None \<and> map_of (st_vehicle_count st) b = None)"
  unfolding calculate_fleet_metrics_valid [OF assms]
  by (simp add: Let_def map_of_rollup vehicle_count_rollup)

theorem fleet_metrics_rollup_witness:
  "''vehicle_speed'' \<in> set (dict_values METRIC_TYPES)
   \<and> ''1D'' \<in> set (dict_values AGGREGATION_PERIODS)
   \<and> map_of (f_columns frame_medians) ''vehicle_speed'' = Some [0, 1, 2, 2, 8, 9, 10]
   \<and> (\<exists>r. calculate_fleet_metrics (\<lambda>p t. 0) frame_medians ''vehicle_speed'' ''1D'' = Inr r
        \<and> map_of (st_mean (fm_statistics r)) 0 = Some (Fin 4)
        \<and> map_of (st_median (fm_statistics r)) 0 = Some (Fin 2)
        \<and> map_of (st_std (fm_statistics r)) 0 = Some (Fin 1)
        \<and> map_of (st_min (fm_statistics r)) 0 = Some (Fin 0)
        \<and> map_of (st_max (fm_statistics r)) 0 = Some (Fin 10)
        \<and> map_of (st_vehicle_count (fm_statistics r)) 0 = Some 3
        \<and> map_of (st_mean (fm_statistics r)) 1 = None)"
proof -
  note h = valid_speed_daily frame_medians_column
  have vs: "{v. \<exists>x::real. (0::real, v, x) \<in> set [(0, ''a'', 0), (0, ''a'', 1), (0, ''a'', 2),
      (0, ''b'', 2), (0, ''c'', 8), (0, ''c'', 9), (0, ''c'', 10)]} = {''a'', ''b'', ''c''}"
    by auto
  obtain r where r: "calculate_fleet_metrics (\<lambda>p t. 0) frame_medians ''vehicle_speed'' ''1D'' = Inr r"
    and st: "\<And>b. let rows = frame_rows (\<lambda>p t. 0) frame_medians ''1D'' [0, 1, 2, 2, 8, 9, 10];
                  st = fm_statistics r in
       if b \<in> fst ` set rows then
         map_of (st_mean st) b = Some (s_mean (vehicle_level s_mean rows b)) \<and>
         map_of (st_median st) b = Some (s_median (vehicle_level s_median rows b)) \<and>
         map_of (st_std st) b = Some (s_mean (vehicle_level s_std rows b)) \<and>
         map_of (st_min st) b = Some (s_min (vehicle_level s_min rows b)) \<and>
         map_of (st_max st) b = Some (s_max (vehicle_level s_max rows b)) \<and>
         map_of (st_vehicle_count st) b = Some (card {v. \<exists>x. (b, v, x) \<in> set rows})
       else
         map_of (st_mean st) b = None \<and> map_of (st_median st) b = None \<and>
         map_of (st_std st) b = None \<and> map_of (st_min st) b = None \<and>
         map_of (st_max st) b = None \<and> map_of (st_vehicle_count st) b = None"
    using fleet_metrics_rollup [OF h, of "\<lambda>p t. 0"] by blast
  have s0: "map_of (st_mean (fm_statistics r)) 0 = Some (Fin 4)
        \<and> map_of (st_median (fm_statistics r)) 0 = Some (Fin 2)
        \<and> map_of (st_std (fm_statistics r)) 0 = Some (Fin 1)
        \<and> map_of (st_min (fm_statistics r)) 0 = Some (Fin 0)
        \<and> map_of (st_max (fm_statistics r)) 0 = Some (Fin 10)
        \<and> map_of (st_vehicle_count (fm_statistics r)) 0 = Some 3"
    using st [of 0] unfolding frame_medians_rows Let_def vs
    by (simp add: stat_eval)
  have s1: "map_of (st_mean (fm_statistics r)) 1 = None"
    using st [of 1] unfolding frame_medians_rows Let_def by simp
  show ?thesis using h r s0 s1 by blast
qed

subsection \<open>The standard deviation entering the aggregation\<close>

lemma frame_one_vehicle_column:
  "map_of (f_columns frame_one_vehicle) ''vehicle_speed'' = Some [0, 1, 2]"
  by (simp add: frame_one_vehicle_def)

lemma frame_one_vehicle_rows:
  "frame_rows (\<lambda>p t. 0) frame_one_vehicle ''1D'' [0, 1, 2] =
     [(0, ''a'', 0), (0, ''a'', 1), (0, ''a'', 2)]"
  by (simp add: frame_rows_def frame_one_vehicle_def)

lemma frame_one_vehicle_keys:
  "bucket_keys [(0, ''a'', 0), (0, ''a'', 1), (0::real, ''a'', 2::real)] = [0]"
  by (simp add: bucket_keys_def)

lemma sqrt_two_thirds_bounds: "163 / 200 < sqrt (2 / 3)" "sqrt (2 / 3) < 82 / 100"
proof -
  have "(163 / 200)\<^sup>2 < (2 / 3 :: real)" by (simp add: power2_eq_square)
  then show "163 / 200 < sqrt (2 / 3)" by (rule real_less_rsqrt)
  have "(2 / 3 :: real) < (82 / 100)\<^sup>2" by (simp add: power2_eq_square)
  then show "sqrt (2 / 3) < 82 / 100" by (intro real_less_lsqrt) simp_all
qed

lemma rint_sqrt_two_thirds: "rint (sqrt (2 / 3) * 100) = 82"
proof -
  have lo: "81 + 1 / 2 < sqrt (2 / 3) * 100" using sqrt_two_thirds_bounds(1) by simp
  have hi: "sqrt (2 / 3) * 100 < 82" using sqrt_two_thirds_bounds(2) by simp
  have f: "\<lfloor>sqrt (2 / 3) * 100\<rfloor> = 81"
    using lo hi by (simp add: floor_eq_iff)
  show ?thesis
    unfolding rint_def Let_def f using lo by simp
qed

lemma rint_100: "rint 100 = 100"
  by (simp add: rint_def Let_def)

lemma performance_one_vehicle:
  "get_fleet_performance documents_one_vehicle (0, 2) [''vehicle_speed''] =
     [(''vehicle_speed'',
       \<lparr> average = Fin 1, maximum = Fin 2, minimum = Fin 0,
         standard_deviation = Fin (82 / 100), sample_size = 3 \<rparr>)]"
proof -
  have c: "std_pop [0, 1, 2] = sqrt (2 / 3)"
    by (simp add: std_pop_def var_pop_def mean_def)
  have m: "mean [0, 1, 2] = 1" by (simp add: mean_def)
  show ?thesis
    by (simp add: get_fleet_performance_def documents_one_vehicle_def Let_def c m
        rint_sqrt_two_thirds rint_100 s_max_def s_min_def dropna_def fl_max_def fl_min_def)
qed

text \<open>
  Claim C7 fails on the code.  One vehicle with the samples 0, 1, 2 in one bin: the
  reported standard deviation is 1, the sample standard deviation (the squared deviations
  sum to 2 and are divided by \<open>N - 1 = 2\<close>).  The population standard deviation of
  these samples is \<open>sqrt (2/3) < 1\<close>, and the fleet-wide summary reports it, rounded,
  as 0.82.
\<close>

theorem fleet_metrics_sample_std_counterexample:
  "calculate_fleet_metrics (\<lambda>p t. 0) frame_one_vehicle ''vehicle_speed'' ''1D'' =
     Inr \<lparr> fm_aggregation_period = ''1D'', fm_metric_type = ''vehicle_speed'',
       fm_statistics = \<lparr> st_mean = [(0, Fin 1)], st_median = [(0, Fin 1)],
         st_std = [(0, Fin 1)], st_min = [(0, Fin 0)], st_max = [(0, Fin 2)],
         st_vehicle_count = [(0, 1)] \<rparr> \<rparr>
   \<and> group_samples (frame_rows (\<lambda>p t. 0) frame_one_vehicle ''1D'' [0, 1, 2]) 0 ''a'' = [0, 1, 2]
   \<and> std_pop [0, 1, 2] = sqrt (2 / 3)
   \<and> sqrt (2 / 3) < (1::real)
   \<and> get_fleet_performance documents_one_vehicle (0, 2) [''vehicle_speed''] =
       [(''vehicle_speed'',
         \<lparr> average = Fin 1, maximum = Fin 2, minimum = Fin 0,
           standard_deviation = Fin (82 / 100), sample_size = 3 \<rparr>)]"
proof -
  let ?rows = "[(0, ''a'', 0), (0, ''a'', 1), (0::real, ''a'', 2::real)]"
  have m1: "rollup s_mean s_mean ?rows = [(0, Fin 1)]"
    by (simp add: rollup_one_bucket [OF frame_one_vehicle_keys] stat_eval)
  have m2: "rollup s_median s_median ?rows = [(0, Fin 1)]"
    by (simp add: rollup_one_bucket [OF frame_one_vehicle_keys] stat_eval)
  have m3: "rollup s_mean s_std ?rows = [(0, Fin 1)]"
    by (simp add: rollup_one_bucket [OF frame_one_vehicle_keys] stat_eval)
  have m4: "rollup s_min s_min ?rows = [(0, Fin 0)]"
    by (simp add: rollup_one_bucket [OF frame_one_vehicle_keys] stat_eval)
  have m5: "rollup s_max s_max ?rows = [(0, Fin 2)]"
    by (simp add: rollup_one_bucket [OF frame_one_vehicle_keys] stat_eval)
  have m6: "rollup s_count (\<lambda>g. Fin (real (s_count g))) ?rows = [(0, 1)]"
    by (simp add: rollup_one_bucket [OF frame_one_vehicle_keys] stat_eval)
  have a: "calculate_fleet_metrics (\<lambda>p t. 0) frame_one_vehicle ''vehicle_speed'' ''1D'' =
     Inr \<lparr> fm_aggregation_period = ''1D'', fm_metric_type = ''vehicle_speed'',
       fm_statistics = \<lparr> st_mean = [(0, Fin 1)], st_median = [(0, Fin 1)],
         st_std = [(0, Fin 1)], st_min = [(0, Fin 0)], st_max = [(0, Fin 2)],
         st_vehicle_count = [(0, 1)] \<rparr> \<rparr>"
    unfolding calculate_fleet_metrics_valid [OF valid_speed_daily frame_one_vehicle_column]
      frame_one_vehicle_rows m1 m2 m3 m4 m5 m6 by (rule refl)
  have b: "group_samples (frame_rows (\<lambda>p t. 0) frame_one_vehicle ''1D'' [0, 1, 2]) 0 ''a''
             = [0, 1, 2]"
    unfolding frame_one_vehicle_rows by (simp add: group_samples_def)
  have c: "std_pop [0, 1, 2] = sqrt (2 / 3)"
    by (simp add: std_pop_def var_pop_def mean_def)
  have "sqrt (2 / 3) < sqrt (1::real)"
    by (subst real_sqrt_less_iff) simp
  then have d: "sqrt (2 / 3) < (1::real)" by simp
  show ?thesis by (intro conjI a b c d performance_one_vehicle)
qed

text \<open>
  Claim C7, as the code has it.  The standard deviation of a (bin, vehicle) group with
  \<open>N\<close> samples is the sample standard deviation, with the denominator \<open>N - 1\<close>; it is
  undefined (NaN) for a group of one sample.  The bin reports the mean of the defined
  ones among its vehicles' values.
\<close>

theorem fleet_metrics_std_sample:
  assumes "metric_type \<in> set (dict_values METRIC_TYPES)"
    and "aggregation_period \<in> set (dict_values AGGREGATION_PERIODS)"
    and "map_of (f_columns fd) metric_type = Some vals"
  shows "\<exists>r. calculate_fleet_metrics grouper fd metric_type aggregation_period = Inr r \<and>
    (\<forall>b \<in> fst ` set (frame_rows grouper fd aggregation_period vals).
       map_of (st_std (fm_statistics r)) b =
         Some (s_mean (map (\<lambda>v. std_sample
                 (group_samples (frame_rows grouper fd aggregation_period vals) b v))
               (bucket_vehicles (frame_rows grouper fd aggregation_period vals) b))))"
  unfolding calculate_fleet_metrics_valid [OF assms]
  by (simp add: map_of_rollup vehicle_level_def group_values_def s_std_map_Fin)

theorem fleet_metrics_std_sample_witness:
  "''vehicle_speed'' \<in> set (dict_values METRIC_TYPES)
   \<and> ''1D'' \<in> set (dict_values AGGREGATION_PERIODS)
   \<and> map_of (f_columns frame_medians) ''vehicle_speed'' = Some [0, 1, 2, 2, 8, 9, 10]
   \<and> (\<exists>r. calculate_fleet_metrics (\<lambda>p t. 0) frame_medians ''vehicle_speed'' ''1D'' = Inr r
        \<and> map_of (st_std (fm_statistics r)) 0
            = Some (s_mean [std_sample [0, 1, 2], std_sample [2], std_sample [8, 9, 10]])
        \<and> std_sample [0, 1, 2] = Fin 1 \<and> std_sample [2] = NaN \<and> std_sample [8, 9, 10] = Fin 1)"
proof -
  note h = valid_speed_daily frame_medians_column
  have vals: "std_sample [0, 1, 2] = Fin 1 \<and> std_sample [2] = NaN \<and> std_sample [8, 9, 10] = Fin 1"
    by (simp add: std_sample_def mean_def)
  show ?thesis
    using fleet_metrics_std_sample [OF h, of "\<lambda>p t. 0"] h vals
    unfolding frame_medians_rows
    by (simp add: bucket_vehicles_def group_samples_def)
qed

subsection \<open>The z-score\<close>

lemma sum_list_sq_pos:
  fixes xs :: "real list" and m :: real
  assumes "x \<in> set xs" "x \<noteq> m"
  shows "0 < (\<Sum>y\<leftarrow>xs. (y - m)\<^sup>2)"
  using assms
proof (induction xs)
  case Nil then show ?case by simp
next
  case (Cons a xs)
  have nn: "0 \<le> (\<Sum>y\<leftarrow>xs. (y - m)\<^sup>2)" by (rule sum_list_nonneg) auto
  show ?case
  proof (cases "x = a")
    case True
    then have "0 < (a - m)\<^sup>2" using Cons.prems by simp
    then have "0 < (a - m)\<^sup>2 + (\<Sum>y\<leftarrow>xs. (y - m)\<^sup>2)" using nn by (rule add_pos_nonneg)
    then show ?thesis by simp
  next
    case False
    then have "0 < (\<Sum>y\<leftarrow>xs. (y - m)\<^sup>2)" using Cons by simp
    moreover have "0 \<le> (a - m)\<^sup>2" by simp
    ultimately have "0 < (a - m)\<^sup>2 + (\<Sum>y\<leftarrow>xs. (y - m)\<^sup>2)" by (rule add_nonneg_pos [rotated])
    then show ?thesis by simp
  qed
qed

lemma mean_const: "xs \<noteq> [] \<Longrightarrow> \<forall>x \<in> set xs. x = c \<Longrightarrow> mean xs = c"
proof -
  assume ne: "xs \<noteq> []" and c: "\<forall>x \<in> set xs. x = c"
  have "xs = replicate (length xs) c"
    using c by (simp add: replicate_length_same)
  then have "sum_list xs = real (length xs) * c"
    by (metis sum_list_replicate mult.commute)
  then show ?thesis using ne by (simp add: mean_def)
qed

lemma nonconst_var_pos:
  assumes "xs \<noteq> []" "\<not> isconst xs"
  shows "0 < var_pop xs"
proof -
  have "\<exists>x \<in> set xs. x \<noteq> mean xs"
  proof (rule ccontr)
    assume "\<not> (\<exists>x \<in> set xs. x \<noteq> mean xs)"
    then have all: "\<forall>x \<in> set xs. x = mean xs" by blast
    moreover have "hd xs \<in> set xs" using assms(1) by simp
    ultimately have "hd xs = mean xs" by blast
    with all have "isconst xs" by (simp add: isconst_def)
    with assms(2) show False by contradiction
  qed
  then obtain x where x: "x \<in> set xs" "x \<noteq> mean xs" by auto
  have "0 < (\<Sum>y\<leftarrow>xs. (y - mean xs)\<^sup>2)"
    by (rule sum_list_sq_pos [OF x])
  moreover have "0 < real (length xs)" using assms(1) by simp
  ultimately show ?thesis by (simp add: var_pop_def)
qed

lemma nonconst_std_pos: "xs \<noteq> [] \<Longrightarrow> \<not> isconst xs \<Longrightarrow> 0 < std_pop xs"
  by (simp add: std_pop_def nonconst_var_pos)

lemma zscore_nonconst:
  assumes "\<not> isconst xs"
  shows "zscore xs = map (\<lambda>x. Fin ((x - mean xs) / std_pop xs)) xs"
proof (cases "xs = []")
  case True then show ?thesis by (simp add: zscore_def)
next
  case False
  then have "std_pop xs \<noteq> 0" using nonconst_std_pos [OF False assms] by simp
  then show ?thesis using False assms by (simp add: zscore_def)
qed

lemma zscore_const: "isconst xs \<Longrightarrow> zscore xs = replicate (length xs) NaN"
  by (simp add: zscore_def)

lemma length_zscore: "length (zscore xs) = length xs"
  by (simp add: zscore_def)

subsection \<open>The labels of the anomaly records\<close>

lemma zscore_speed_example:
  "zscore [0, 0, 0, 0, 5] = [Fin (- 1 / 2), Fin (- 1 / 2), Fin (- 1 / 2), Fin (- 1 / 2), Fin 2]"
proof -
  have m: "mean [0, 0, 0, 0, 5] = 1" by (simp add: mean_def)
  have s: "std_pop [0, 0, 0, 0, 5] = 2" by (simp add: std_pop_def var_pop_def m)
  have c: "\<not> isconst [0, 0, 0, 0, 5]" by (simp add: isconst_def)
  show ?thesis by (simp add: zscore_nonconst [OF c] m s)
qed

lemma zscore_fuel_example:
  "zscore [10, 10, 10, 10, 5] = [Fin (1 / 2), Fin (1 / 2), Fin (1 / 2), Fin (1 / 2), Fin (- 2)]"
proof -
  have m: "mean [10, 10, 10, 10, 5] = 9" by (simp add: mean_def)
  have s: "std_pop [10, 10, 10, 10, 5] = 2" by (simp add: std_pop_def var_pop_def m)
  have c: "\<not> isconst [10, 10, 10, 10, 5]" by (simp add: isconst_def)
  show ?thesis by (simp add: zscore_nonconst [OF c] m s)
qed

lemma z_score_table_two:
  "z_score_table table_two =
     [(''speed'', [Fin (1 / 2), Fin (1 / 2), Fin (1 / 2), Fin (1 / 2), Fin 2]),
      (''fuel'', [Fin (1 / 2), Fin (1 / 2), Fin (1 / 2), Fin (1 / 2), Fin 2])]"
  by (simp add: z_score_table_def table_two_def zscore_speed_example zscore_fuel_example)

lemma upt_5: "[0..<5] = [0, 1, 2, 3, 4]"
  by (simp add: upt_rec)

lemma frame_two_fields: "n_rows frame_two = 5" "numeric_cols frame_two = table_two"
  by (simp_all add: frame_two_def)

text \<open>
  Claim C6 fails on the code as it words the label.  In \<open>frame_two\<close> the last row
  exceeds the threshold in both columns; the record's \<open>anomaly_type\<close> is the text
  \<open>Anomaly in: speed, fuel\<close>, which is not the comma-joined list of the two names.
\<close>

theorem detect_anomalies_label_counterexample:
  "detect_anomalies frame_two (3 / 2) =
     Inr [\<lparr> a_index = 4, a_sample = [(''speed'', Fin 5), (''fuel'', Fin 5)],
            confidence_score = Fin 2, anomaly_type = ''Anomaly in: speed, fuel'' \<rparr>]
   \<and> exceeding_columns table_two (3 / 2) 4 = [''speed'', ''fuel'']
   \<and> ''Anomaly in: speed, fuel'' \<noteq> str_join '','' [''speed'', ''fuel'']
   \<and> ''Anomaly in: speed, fuel'' \<noteq> str_join '', '' [''speed'', ''fuel'']"
proof -
  have a: "detect_anomalies frame_two (3 / 2) =
     Inr [\<lparr> a_index = 4, a_sample = [(''speed'', Fin 5), (''fuel'', Fin 5)],
            confidence_score = Fin 2, anomaly_type = ''Anomaly in: speed, fuel'' \<rparr>]"
    unfolding detect_anomalies_def frame_two_fields z_score_table_two Let_def upt_5
      categorize_anomalies_def
    by (simp add: frame_row_def any_exceeds_def exceeds_def fl_gt_def categorize_row_def
        s_max_def dropna_def fl_max_def table_two_def)
  have b: "exceeding_columns table_two (3 / 2) 4 = [''speed'', ''fuel'']"
    by (simp add: exceeding_columns_def table_two_def zscore_speed_example
        zscore_fuel_example fl_gt_def)
  have c: "''Anomaly in: speed, fuel'' \<noteq> str_join '','' [''speed'', ''fuel'']"
    by simp
  have d: "''Anomaly in: speed, fuel'' \<noteq> str_join '', '' [''speed'', ''fuel'']"
    by simp
  show ?thesis by (intro conjI a b c d)
qed

text \<open>
  The same frame at the threshold 2, which no row exceeds: the emptied frame is rebuilt
  by the assignment of the labels, and every row of the input comes back, without its
  values and labelled \<open>Normal\<close>.
\<close>

lemma detect_anomalies_rebuilt_example:
  "detect_anomalies frame_two 2 =
     Inr (map (\<lambda>i. \<lparr> a_index = i, a_sample = [(''speed'', NaN), (''fuel'', NaN)],
                      confidence_score = NaN, anomaly_type = ''Normal'' \<rparr>) [0, 1, 2, 3, 4])"
  unfolding detect_anomalies_def frame_two_fields z_score_table_two Let_def upt_5
    categorize_anomalies_def
  by (simp add: frame_row_def any_exceeds_def exceeds_def fl_gt_def categorize_row_def
      table_two_def)

text \<open>A frame with rows and no numeric column is refused.\<close>

lemma detect_anomalies_no_numeric_column:
  "0 < n \<Longrightarrow> detect_anomalies \<lparr> n_rows = n, numeric_cols = [] \<rparr> threshold = Inl Indexer_mismatch"
  by (simp add: detect_anomalies_def Let_def)

lemma wf_frame_length:
  "wf_frame f \<Longrightarrow> c \<in> set (numeric_cols f) \<Longrightarrow> length (snd c) = n_rows f"
  by (simp add: wf_frame_def list_all_iff)

lemma exceeds_z_row:
  assumes "wf_frame f" "i < n_rows f"
  shows "map fst (exceeds threshold (frame_row (z_score_table (numeric_cols f)) i))
           = exceeding_columns (numeric_cols f) threshold i"
proof -
  let ?t = "numeric_cols f"
  have nth: "map fl_abs (zscore (snd c)) ! i = fl_abs (zscore (snd c) ! i)" if "c \<in> set ?t" for c
    using that assms wf_frame_length [OF assms(1) that] by (simp add: length_zscore)
  have "exceeds threshold (frame_row (z_score_table ?t) i) =
        map (\<lambda>c. (fst c, map fl_abs (zscore (snd c)) ! i))
          (filter (\<lambda>c. fl_gt (map fl_abs (zscore (snd c)) ! i) (Fin threshold)) ?t)"
    by (simp add: exceeds_def frame_row_def z_score_table_def filter_map comp_def)
  also have "filter (\<lambda>c. fl_gt (map fl_abs (zscore (snd c)) ! i) (Fin threshold)) ?t =
        filter (\<lambda>c. fl_gt (fl_abs (zscore (snd c) ! i)) (Fin threshold)) ?t"
    by (rule filter_cong) (simp_all add: nth)
  finally show ?thesis
    by (simp add: exceeding_columns_def comp_def)
qed

lemma any_exceeds_row:
  assumes "wf_frame f" "i < n_rows f"
  shows "any_exceeds threshold (frame_row (z_score_table (numeric_cols f)) i)
           = (exceeding_columns (numeric_cols f) threshold i \<noteq> [])"
  using exceeds_z_row [OF assms, of threshold] by (metis any_exceeds_def map_is_Nil_conv)

lemma selected_rows:
  assumes "wf_frame f"
  shows "filter (\<lambda>i. any_exceeds threshold (frame_row (z_score_table (numeric_cols f)) i))
           [0..<n_rows f]
         = filter (\<lambda>i. exceeding_columns (numeric_cols f) threshold i \<noteq> []) [0..<n_rows f]"
  by (rule filter_cong [OF refl]) (simp add: any_exceeds_row [OF assms])

lemma categories_nth:
  assumes "wf_frame f" "i < n_rows f"
  shows "categorize_anomalies (n_rows f) (z_score_table (numeric_cols f)) threshold ! i =
     (if exceeding_columns (numeric_cols f) threshold i \<noteq> []
      then ''Anomaly in: '' @ str_join '', '' (exceeding_columns (numeric_cols f) threshold i)
      else ''Normal'')"
  using assms(2)
  by (simp add: categorize_anomalies_def categorize_row_def any_exceeds_row [OF assms]
      exceeds_z_row [OF assms] Let_def)

text \<open>
  What the detector returns when no row exceeds the threshold, in general: one record
  for every row of the input, labelled \<open>Normal\<close>.
\<close>

lemma detect_anomalies_none_exceeds:
  assumes wf: "wf_frame f" and cols: "numeric_cols f \<noteq> []"
    and none: "\<forall>i<n_rows f. exceeding_columns (numeric_cols f) threshold i = []"
  shows "detect_anomalies f threshold =
     Inr (map (\<lambda>i. \<lparr> a_index = i, a_sample = map (\<lambda>c. (fst c, NaN)) (numeric_cols f),
                      confidence_score = NaN, anomaly_type = ''Normal'' \<rparr>) [0..<n_rows f])"
proof -
  have sel: "filter (\<lambda>i. exceeding_columns (numeric_cols f) threshold i \<noteq> []) [0..<n_rows f] = []"
    using none by (simp add: filter_empty_conv)
  have lab: "categorize_anomalies (n_rows f) (z_score_table (numeric_cols f)) threshold ! i
               = ''Normal''" if "i < n_rows f" for i
    using that none by (simp add: categories_nth [OF wf])
  show ?thesis
    unfolding detect_anomalies_def Let_def selected_rows [OF wf] sel
    using cols by (simp add: lab)
qed

text \<open>
  Claim C6, as the code has it, on the frames in which some row exceeds the threshold.
  There the detector returns, in row order, one record for each row in which some
  column's absolute z-score is above the threshold, and no other.  The \<open>anomaly_type\<close>
  of a record is the prefix \<open>Anomaly in: \<close> followed by the names of exactly the columns
  that exceed the threshold in that row, in column order, joined by a comma and a space,
  and no record is labelled \<open>Normal\<close>.  The frames in which no row exceeds the threshold
  are the subject of \<open>detect_anomalies_none_exceeds\<close>.
\<close>

theorem detect_anomalies_labels:
  assumes wf: "wf_frame f"
    and some: "\<exists>i<n_rows f. exceeding_columns (numeric_cols f) threshold i \<noteq> []"
  shows "\<exists>out. detect_anomalies f threshold = Inr out \<and>
     map a_index out =
       filter (\<lambda>i. exceeding_columns (numeric_cols f) threshold i \<noteq> []) [0..<n_rows f] \<and>
     (\<forall>a \<in> set out.
        anomaly_type a =
          ''Anomaly in: '' @
            str_join '', '' (exceeding_columns (numeric_cols f) threshold (a_index a)) \<and>
        anomaly_type a \<noteq> ''Normal'')"
proof -
  let ?sel = "filter (\<lambda>i. exceeding_columns (numeric_cols f) threshold i \<noteq> []) [0..<n_rows f]"
  from some obtain i where i: "i < n_rows f" "exceeding_columns (numeric_cols f) threshold i \<noteq> []"
    by blast
  have cols: "numeric_cols f \<noteq> []"
    using i(2) by (auto simp: exceeding_columns_def)
  have ne: "?sel \<noteq> []"
    using i by (auto simp: filter_empty_conv)
  have lab: "categorize_anomalies (n_rows f) (z_score_table (numeric_cols f)) threshold ! j =
        ''Anomaly in: '' @ str_join '', '' (exceeding_columns (numeric_cols f) threshold j)"
    if "j \<in> set ?sel" for j
  proof -
    have "j < n_rows f" "exceeding_columns (numeric_cols f) threshold j \<noteq> []"
      using that by simp_all
    then show ?thesis by (simp add: categories_nth [OF wf])
  qed
  have "detect_anomalies f threshold =
      Inr (map (\<lambda>i. \<lparr> a_index = i,
                       a_sample = map (\<lambda>c. (fst c, Fin (snd c ! i))) (numeric_cols f),
                       confidence_score =
                         s_max (map snd (frame_row (z_score_table (numeric_cols f)) i)),
                       anomaly_type =
                         categorize_anomalies (n_rows f) (z_score_table (numeric_cols f))
                           threshold ! i \<rparr>) ?sel)"
    unfolding detect_anomalies_def Let_def selected_rows [OF wf]
    using cols ne by simp
  then show ?thesis
    by (auto simp: comp_def lab)
qed

theorem detect_anomalies_labels_witness:
  "wf_frame frame_two
   \<and> (4 < n_rows frame_two \<and> exceeding_columns (numeric_cols frame_two) (3 / 2) 4 \<noteq> [])
   \<and> (\<exists>out. detect_anomalies frame_two (3 / 2) = Inr out \<and> map a_index out = [4] \<and>
      map anomaly_type out = [''Anomaly in: speed, fuel''])"
proof -
  have wf: "wf_frame frame_two"
    by (simp add: wf_frame_def frame_two_def table_two_def)
  have ex: "exceeding_columns table_two (3 / 2) i =
      (if i = 4 then [''speed'', ''fuel''] else [])" if "i < 5" for i
  proof -
    from that have "i = 0 \<or> i = 1 \<or> i = 2 \<or> i = 3 \<or> i = 4" by arith
    then show ?thesis
      by (auto simp: exceeding_columns_def table_two_def zscore_speed_example
          zscore_fuel_example fl_gt_def)
  qed
  have some: "4 < n_rows frame_two \<and> exceeding_columns (numeric_cols frame_two) (3 / 2) 4 \<noteq> []"
    by (simp add: frame_two_fields ex)
  then have some': "\<exists>i<n_rows frame_two. exceeding_columns (numeric_cols frame_two) (3 / 2) i \<noteq> []"
    by (rule exI [of _ 4])
  have sel: "filter (\<lambda>i. exceeding_columns table_two (3 / 2) i \<noteq> []) [0..<5] = [4]"
    unfolding upt_5 by (simp add: ex)
  from detect_anomalies_labels [OF wf some']
  obtain out where all: "detect_anomalies frame_two (3 / 2) = Inr out \<and>
     map a_index out = [4] \<and>
     (\<forall>a \<in> set out.
        anomaly_type a =
          ''Anomaly in: '' @ str_join '', '' (exceeding_columns table_two (3 / 2) (a_index a)) \<and>
        anomaly_type a \<noteq> ''Normal'')"
    unfolding frame_two_fields sel ..
  then have out: "detect_anomalies frame_two (3 / 2) = Inr out"
    and idx: "map a_index out = [4]"
    and lab: "\<forall>a \<in> set out. anomaly_type a =
          ''Anomaly in: '' @ str_join '', '' (exceeding_columns table_two (3 / 2) (a_index a))"
    by simp_all
  from idx obtain a where a: "out = [a]" "a_index a = 4"
    by (auto simp: map_eq_Cons_conv)
  have "anomaly_type a = ''Anomaly in: speed, fuel''"
    using lab a by (simp add: ex)
  then show ?thesis using wf some out idx a by simp
qed

subsection \<open>The efficiency score\<close>

text \<open>
  Claim C1 is about the score that \<open>analyze_delivery_efficiency\<close> returns.  The function
  returns none: for every batch, every parameter setting and either treatment of the
  mixed list by NumPy it raises, at \<open>np.mean\<close> or at the built-in \<open>round\<close> applied to
  the array of means.  Its caller receives a \<open>ValueError\<close> whose text starts
  \<open>Error analyzing delivery efficiency\<close>, and no score, in the interval from 0 to 100
  or outside it.
\<close>

theorem efficiency_scorer_raises:
  "analyze_delivery_efficiency numpy delivery_data efficiency_parameters =
     Inl (case numpy of Ragged_value_error \<Rightarrow> Inhomogeneous_shape
          | Ragged_object_array \<Rightarrow> Round_type_error)"
  by (cases numpy) (simp_all add: analyze_delivery_efficiency_def Let_def py_round_array_def)

theorem efficiency_scorer_raises_witness:
  "analyze_delivery_efficiency Ragged_value_error batch_far
       [''target_on_time'' \<mapsto> 95, ''target_utilization'' \<mapsto> 90] = Inl Inhomogeneous_shape
   \<and> analyze_delivery_efficiency Ragged_object_array batch_far
       [''target_on_time'' \<mapsto> 95, ''target_utilization'' \<mapsto> 90] = Inl Round_type_error"
  using efficiency_scorer_raises [of Ragged_value_error batch_far
      "[''target_on_time'' \<mapsto> 95, ''target_utilization'' \<mapsto> 90]"]
    efficiency_scorer_raises [of Ragged_object_array batch_far
      "[''target_on_time'' \<mapsto> 95, ''target_utilization'' \<mapsto> 90]"]
  by simp

subsection \<open>Columns without variance\<close>

lemma isconst_fives: "isconst [5, 5, 5, 5, 5]"
  by (simp add: isconst_def)

text \<open>
  Claim C2 fails on the code.  A column where every value is 5 gets the z-score NaN in
  every row, in the detector's frame of z-scores and in the scorer's, not the z-score 0.
\<close>

theorem zero_variance_zscore_counterexample:
  "z_score_table table_constant =
     [(''load'', [NaN, NaN, NaN, NaN, NaN]),
      (''speed'', [Fin (1 / 2), Fin (1 / 2), Fin (1 / 2), Fin (1 / 2), Fin 2])]
   \<and> efficiency_scores
        [delivery_far 5, delivery_far 5, delivery_far 5, delivery_far 5, delivery_far 5]
       = [[NaN, NaN, NaN, NaN, NaN], [NaN, NaN, NaN, NaN, NaN], [NaN, NaN, NaN, NaN, NaN]]
   \<and> NaN \<noteq> Fin 0"
  by (simp add: z_score_table_def table_constant_def zscore_speed_example
      zscore_const [OF isconst_fives] efficiency_scores_def delivery_far_def)

lemma constant_column_nan:
  assumes wf: "wf_frame f" and c: "(nm, xs) \<in> set (numeric_cols f)" and k: "isconst xs"
    and d: "(nm', ys) \<in> set (numeric_cols f)" and i: "i < n_rows f" and eq: "nm' = nm"
  shows "zscore ys ! i = NaN"
proof -
  have "distinct (map fst (numeric_cols f))" using wf by (simp add: wf_frame_def)
  then have "ys = xs" using d c unfolding eq by (rule eq_key_imp_eq_value)
  moreover have "length xs = n_rows f" using wf_frame_length [OF wf c] by simp
  ultimately show ?thesis using k i by (simp add: zscore_const)
qed

lemma exceeding_not_constant:
  assumes wf: "wf_frame f" and c: "(nm, xs) \<in> set (numeric_cols f)" and k: "isconst xs"
    and i: "i < n_rows f"
  shows "nm \<notin> set (exceeding_columns (numeric_cols f) threshold i)"
proof
  assume "nm \<in> set (exceeding_columns (numeric_cols f) threshold i)"
  then obtain ys where ys: "(nm, ys) \<in> set (numeric_cols f)"
      and ex: "fl_gt (fl_abs (zscore ys ! i)) (Fin threshold)"
    by (auto simp: exceeding_columns_def)
  have "zscore ys ! i = NaN" by (rule constant_column_nan [OF wf c k ys i refl])
  with ex show False by (simp add: fl_gt_def)
qed

lemma detect_anomalies_records:
  assumes "numeric_cols f \<noteq> []"
  shows "\<exists>out. detect_anomalies f threshold = Inr out \<and>
     (\<forall>a \<in> set out. a_index a < n_rows f \<and>
        anomaly_type a =
          categorize_anomalies (n_rows f) (z_score_table (numeric_cols f)) threshold ! a_index a)"
  unfolding detect_anomalies_def Let_def using assms by auto

lemma filter_map_filter:
  assumes "\<And>c. c \<in> set t \<Longrightarrow> \<not> Q c \<Longrightarrow> \<not> P (g c)"
  shows "filter P (map g (filter Q t)) = filter P (map g t)"
  using assms by (induction t) auto

text \<open>
  Without a constant column the rows of \<open>z_scores\<close> exceed the threshold in the same
  columns and have the same maximum: the entry that is left out is NaN.
\<close>

lemma without_column_row:
  assumes wf: "wf_frame f" and c: "(nm, xs) \<in> set (numeric_cols f)" and k: "isconst xs"
    and i: "i < n_rows f"
  shows "exceeds threshold (frame_row (z_score_table (numeric_cols (without_column nm f))) i)
           = exceeds threshold (frame_row (z_score_table (numeric_cols f)) i)"
    and "s_max (map snd (frame_row (z_score_table (numeric_cols (without_column nm f))) i))
           = s_max (map snd (frame_row (z_score_table (numeric_cols f)) i))"
proof -
  let ?t = "numeric_cols f"
  let ?g = "\<lambda>c. (fst c, map fl_abs (zscore (snd c)) ! i)"
  have nan: "map fl_abs (zscore (snd d)) ! i = NaN" if "d \<in> set ?t" "\<not> fst d \<noteq> nm" for d
  proof -
    have d: "(fst d, snd d) \<in> set ?t" using that(1) by simp
    have e: "fst d = nm" using that(2) by simp
    have "zscore (snd d) ! i = NaN" by (rule constant_column_nan [OF wf c k d i e])
    moreover have "i < length (zscore (snd d))"
      using wf_frame_length [OF wf that(1)] i by (simp add: length_zscore)
    ultimately show ?thesis by simp
  qed
  have rows: "frame_row (z_score_table (filter (\<lambda>c. fst c \<noteq> nm) ?t)) i
                = map ?g (filter (\<lambda>c. fst c \<noteq> nm) ?t)"
      "frame_row (z_score_table ?t) i = map ?g ?t"
    by (simp_all add: frame_row_def z_score_table_def comp_def)
  have "filter (\<lambda>p. fl_gt (snd p) (Fin threshold)) (map ?g (filter (\<lambda>c. fst c \<noteq> nm) ?t))
          = filter (\<lambda>p. fl_gt (snd p) (Fin threshold)) (map ?g ?t)"
    by (rule filter_map_filter) (simp add: nan fl_gt_def)
  then show "exceeds threshold (frame_row (z_score_table (numeric_cols (without_column nm f))) i)
           = exceeds threshold (frame_row (z_score_table (numeric_cols f)) i)"
    by (simp add: without_column_def exceeds_def rows)
  have "filter (\<lambda>x. x \<noteq> NaN) (map (snd \<circ> ?g) (filter (\<lambda>c. fst c \<noteq> nm) ?t))
          = filter (\<lambda>x. x \<noteq> NaN) (map (snd \<circ> ?g) ?t)"
    by (rule filter_map_filter) (simp add: nan)
  then show "s_max (map snd (frame_row (z_score_table (numeric_cols (without_column nm f))) i))
           = s_max (map snd (frame_row (z_score_table (numeric_cols f)) i))"
    by (simp add: without_column_def s_max_def dropna_def rows)
qed

lemma without_column_verdicts:
  assumes wf: "wf_frame f" and c: "(nm, xs) \<in> set (numeric_cols f)" and k: "isconst xs"
    and rest: "numeric_cols (without_column nm f) \<noteq> []"
    and out: "detect_anomalies f threshold = Inr out"
  shows "\<exists>out'. detect_anomalies (without_column nm f) threshold = Inr out' \<and>
           map (\<lambda>a. (a_index a, confidence_score a, anomaly_type a)) out'
             = map (\<lambda>a. (a_index a, confidence_score a, anomaly_type a)) out"
proof -
  let ?z = "z_score_table (numeric_cols f)"
  let ?z' = "z_score_table (numeric_cols (without_column nm f))"
  have n: "n_rows (without_column nm f) = n_rows f" by (simp add: without_column_def)
  have cols: "numeric_cols f \<noteq> []" using c by auto
  have sel: "filter (\<lambda>i. any_exceeds threshold (frame_row ?z' i)) [0..<n_rows f]
             = filter (\<lambda>i. any_exceeds threshold (frame_row ?z i)) [0..<n_rows f]"
    by (rule filter_cong [OF refl]) (simp add: any_exceeds_def without_column_row [OF wf c k])
  have cat: "categorize_anomalies (n_rows f) ?z' threshold ! i
             = categorize_anomalies (n_rows f) ?z threshold ! i" if "i < n_rows f" for i
    using that
    by (simp add: categorize_anomalies_def categorize_row_def any_exceeds_def
        without_column_row [OF wf c k])
  have conf: "s_max (map snd (frame_row ?z' i)) = s_max (map snd (frame_row ?z i))"
    if "i < n_rows f" for i
    using that by (rule without_column_row(2) [OF wf c k])
  show ?thesis
    using out cols rest
    unfolding detect_anomalies_def Let_def n sel
    by (auto simp: comp_def cat conf split: if_splits)
qed

lemma frame_constant_fields: "n_rows frame_constant = 5" "numeric_cols frame_constant = table_constant"
  by (simp_all add: frame_constant_def)

lemma z_score_table_constant:
  "z_score_table table_constant =
     [(''load'', [NaN, NaN, NaN, NaN, NaN]),
      (''speed'', [Fin (1 / 2), Fin (1 / 2), Fin (1 / 2), Fin (1 / 2), Fin 2])]"
  by (simp add: z_score_table_def table_constant_def zscore_speed_example
      zscore_const [OF isconst_fives])

lemma detect_anomalies_constant_example:
  "detect_anomalies frame_constant (3 / 2) =
     Inr [\<lparr> a_index = 4, a_sample = [(''load'', Fin 5), (''speed'', Fin 5)],
            confidence_score = Fin 2, anomaly_type = ''Anomaly in: speed'' \<rparr>]"
  unfolding detect_anomalies_def frame_constant_fields z_score_table_constant Let_def upt_5
    categorize_anomalies_def
  by (simp add: frame_row_def any_exceeds_def exceeds_def fl_gt_def categorize_row_def
      s_max_def dropna_def fl_max_def table_constant_def)

text \<open>
  Claim C2, as the code has it.  The z-score of a constant column is NaN in every row.
  In the detector the column's entry of the z-score frame is all NaN and the detection
  returns.  Every returned record is labelled either \<open>Normal\<close> or with the names of the
  columns that exceed the threshold in its row, and the constant column is never among
  them, since no comparison with NaN holds.  Moreover the column changes nothing in the
  verdict: the detector returns the same rows, with the same confidence scores and the
  same labels, as on the frame without the column, when another numeric column is left.
  In the scorer a constant feature column has the scores NaN throughout, as have all
  three columns of a batch of one delivery.
\<close>

theorem zero_variance_zscore_nan:
  "(isconst xs \<longrightarrow> zscore xs = replicate (length xs) NaN)
   \<and> (wf_frame f \<and> (nm, xs) \<in> set (numeric_cols f) \<and> isconst xs \<longrightarrow>
        map_of (z_score_table (numeric_cols f)) nm = Some (replicate (n_rows f) NaN)
        \<and> (\<exists>out. detect_anomalies f threshold = Inr out
             \<and> (\<forall>a \<in> set out.
                   anomaly_type a = ''Normal''
                   \<or> anomaly_type a = ''Anomaly in: '' @
                        str_join '', '' (exceeding_columns (numeric_cols f) threshold (a_index a))
                     \<and> exceeding_columns (numeric_cols f) threshold (a_index a) \<noteq> []
                     \<and> nm \<notin> set (exceeding_columns (numeric_cols f) threshold (a_index a)))
             \<and> (numeric_cols (without_column nm f) \<noteq> [] \<longrightarrow>
                  (\<exists>out'. detect_anomalies (without_column nm f) threshold = Inr out' \<and>
                     map (\<lambda>a. (a_index a, confidence_score a, anomaly_type a)) out'
                       = map (\<lambda>a. (a_index a, confidence_score a, anomaly_type a)) out))))
   \<and> (isconst (map delivery_time data) \<longrightarrow>
        efficiency_scores data ! 0 = replicate (length data) NaN)
   \<and> (isconst (map distance data) \<longrightarrow>
        efficiency_scores data ! 1 = replicate (length data) NaN)
   \<and> (isconst (map fuel_consumption data) \<longrightarrow>
        efficiency_scores data ! 2 = replicate (length data) NaN)
   \<and> efficiency_scores [d] = [[NaN], [NaN], [NaN]]"
proof -
  have det: "map_of (z_score_table (numeric_cols f)) nm = Some (replicate (n_rows f) NaN)
        \<and> (\<exists>out. detect_anomalies f threshold = Inr out
             \<and> (\<forall>a \<in> set out.
                   anomaly_type a = ''Normal''
                   \<or> anomaly_type a = ''Anomaly in: '' @
                        str_join '', '' (exceeding_columns (numeric_cols f) threshold (a_index a))
                     \<and> exceeding_columns (numeric_cols f) threshold (a_index a) \<noteq> []
                     \<and> nm \<notin> set (exceeding_columns (numeric_cols f) threshold (a_index a)))
             \<and> (numeric_cols (without_column nm f) \<noteq> [] \<longrightarrow>
                  (\<exists>out'. detect_anomalies (without_column nm f) threshold = Inr out' \<and>
                     map (\<lambda>a. (a_index a, confidence_score a, anomaly_type a)) out'
                       = map (\<lambda>a. (a_index a, confidence_score a, anomaly_type a)) out)))"
    if wf: "wf_frame f" and c: "(nm, xs) \<in> set (numeric_cols f)" and k: "isconst xs"
  proof -
    have d: "distinct (map fst (z_score_table (numeric_cols f)))"
      using wf by (simp add: wf_frame_def z_score_table_def comp_def)
    have "(nm, map fl_abs (zscore xs)) \<in> set (z_score_table (numeric_cols f))"
      using c by (force simp: z_score_table_def)
    then have "map_of (z_score_table (numeric_cols f)) nm = Some (map fl_abs (zscore xs))"
      using d by simp
    then have one: "map_of (z_score_table (numeric_cols f)) nm = Some (replicate (n_rows f) NaN)"
      using k wf_frame_length [OF wf c] by (simp add: zscore_const)
    have cols: "numeric_cols f \<noteq> []" using c by auto
    from detect_anomalies_records [OF cols, of threshold]
    obtain out where out: "detect_anomalies f threshold = Inr out"
      and rec: "\<forall>a \<in> set out. a_index a < n_rows f \<and>
        anomaly_type a =
          categorize_anomalies (n_rows f) (z_score_table (numeric_cols f)) threshold ! a_index a"
      by blast
    have two: "anomaly_type a = ''Normal''
          \<or> anomaly_type a = ''Anomaly in: '' @
               str_join '', '' (exceeding_columns (numeric_cols f) threshold (a_index a))
            \<and> exceeding_columns (numeric_cols f) threshold (a_index a) \<noteq> []
            \<and> nm \<notin> set (exceeding_columns (numeric_cols f) threshold (a_index a))"
      if "a \<in> set out" for a
    proof -
      have i: "a_index a < n_rows f" using rec that by simp
      have "anomaly_type a =
          (if exceeding_columns (numeric_cols f) threshold (a_index a) \<noteq> []
           then ''Anomaly in: '' @
                  str_join '', '' (exceeding_columns (numeric_cols f) threshold (a_index a))
           else ''Normal'')"
        using rec that categories_nth [OF wf i, of threshold] by simp
      then show ?thesis
        using exceeding_not_constant [OF wf c k i, of threshold] by (simp split: if_splits)
    qed
    have three: "\<exists>out'. detect_anomalies (without_column nm f) threshold = Inr out' \<and>
                     map (\<lambda>a. (a_index a, confidence_score a, anomaly_type a)) out'
                       = map (\<lambda>a. (a_index a, confidence_score a, anomaly_type a)) out"
      if "numeric_cols (without_column nm f) \<noteq> []"
      by (rule without_column_verdicts [OF wf c k that out])
    show ?thesis using one out two three by blast
  qed
  have k1: "isconst [x]" for x :: real by (simp add: isconst_def)
  have single: "efficiency_scores [d] = [[NaN], [NaN], [NaN]]"
    by (simp add: efficiency_scores_def zscore_const [OF k1])
  show ?thesis
    using det single by (simp add: efficiency_scores_def zscore_const)
qed

theorem zero_variance_zscore_nan_witness:
  "isconst [5, 5, 5, 5, 5] \<and> zscore [5, 5, 5, 5, 5] = [NaN, NaN, NaN, NaN, NaN]
   \<and> wf_frame frame_constant \<and> (''load'', [5, 5, 5, 5, 5]) \<in> set (numeric_cols frame_constant)
   \<and> map_of (z_score_table (numeric_cols frame_constant)) ''load''
        = Some [NaN, NaN, NaN, NaN, NaN]
   \<and> (\<exists>out. detect_anomalies frame_constant (3 / 2) = Inr out
         \<and> map anomaly_type out = [''Anomaly in: speed'']
         \<and> numeric_cols (without_column ''load'' frame_constant)
             = [(''speed'', [0, 0, 0, 0, 5])]
         \<and> (\<exists>out'. detect_anomalies (without_column ''load'' frame_constant) (3 / 2) = Inr out'
               \<and> map (\<lambda>a. (a_index a, confidence_score a, anomaly_type a)) out'
                    = [(4, Fin 2, ''Anomaly in: speed'')]))
   \<and> isconst (map delivery_time batch_single)
   \<and> efficiency_scores batch_single = [[NaN], [NaN], [NaN]]"
proof -
  note T = zero_variance_zscore_nan [of "[5, 5, 5, 5, 5]" frame_constant "''load''" "3 / 2"
      batch_single "delivery_far 5"]
  have wf: "wf_frame frame_constant"
    by (simp add: wf_frame_def frame_constant_def table_constant_def)
  have c: "(''load'', [5, 5, 5, 5, 5]) \<in> set (numeric_cols frame_constant)"
    by (simp add: frame_constant_def table_constant_def)
  have r5: "replicate 5 NaN = [NaN, NaN, NaN, NaN, NaN]"
    by (simp add: numeral_eq_Suc)
  have z: "zscore [5, 5, 5, 5, 5] = [NaN, NaN, NaN, NaN, NaN]"
    using T [THEN conjunct1, THEN mp, OF isconst_fives] by (simp add: r5)
  note D = T [THEN conjunct2, THEN conjunct1, THEN mp, OF conjI [OF wf conjI [OF c isconst_fives]]]
  have m: "map_of (z_score_table (numeric_cols frame_constant)) ''load''
        = Some [NaN, NaN, NaN, NaN, NaN]"
    using D [THEN conjunct1] by (simp add: frame_constant_fields r5)
  have rest: "numeric_cols (without_column ''load'' frame_constant)
             = [(''speed'', [0, 0, 0, 0, 5])]"
    by (simp add: without_column_def frame_constant_def table_constant_def)
  from D [THEN conjunct2] obtain out where out: "detect_anomalies frame_constant (3 / 2) = Inr out"
    and same: "numeric_cols (without_column ''load'' frame_constant) \<noteq> [] \<longrightarrow>
       (\<exists>out'. detect_anomalies (without_column ''load'' frame_constant) (3 / 2) = Inr out' \<and>
          map (\<lambda>a. (a_index a, confidence_score a, anomaly_type a)) out'
            = map (\<lambda>a. (a_index a, confidence_score a, anomaly_type a)) out)"
    by (elim exE conjE)
  have o: "out = [\<lparr> a_index = 4, a_sample = [(''load'', Fin 5), (''speed'', Fin 5)],
            confidence_score = Fin 2, anomaly_type = ''Anomaly in: speed'' \<rparr>]"
    using out detect_anomalies_constant_example by simp
  have lab: "map anomaly_type out = [''Anomaly in: speed'']"
    by (simp add: o)
  have "\<exists>out'. detect_anomalies (without_column ''load'' frame_constant) (3 / 2) = Inr out' \<and>
          map (\<lambda>a. (a_index a, confidence_score a, anomaly_type a)) out'
            = map (\<lambda>a. (a_index a, confidence_score a, anomaly_type a)) out"
    using same rest by simp
  then have w: "\<exists>out'. detect_anomalies (without_column ''load'' frame_constant) (3 / 2) = Inr out'
               \<and> map (\<lambda>a. (a_index a, confidence_score a, anomaly_type a)) out'
                    = [(4, Fin 2, ''Anomaly in: speed'')]"
    by (simp add: o)
  have k: "isconst (map delivery_time batch_single)"
    by (simp add: batch_single_def isconst_def)
  have sc: "efficiency_scores batch_single = [[NaN], [NaN], [NaN]]"
    using T [THEN conjunct2, THEN conjunct2, THEN conjunct2, THEN conjunct2, THEN conjunct2]
    by (simp add: batch_single_def)
  have det: "\<exists>out. detect_anomalies frame_constant (3 / 2) = Inr out
         \<and> map anomaly_type out = [''Anomaly in: speed'']
         \<and> numeric_cols (without_column ''load'' frame_constant)
             = [(''speed'', [0, 0, 0, 0, 5])]
         \<and> (\<exists>out'. detect_anomalies (without_column ''load'' frame_constant) (3 / 2) = Inr out'
               \<and> map (\<lambda>a. (a_index a, confidence_score a, anomaly_type a)) out'
                    = [(4, Fin 2, ''Anomaly in: speed'')])"
    by (intro exI [of _ out] conjI out lab rest w)
  show ?thesis
    by (intro conjI isconst_fives z wf c m det k sc)
qed

subsection \<open>Kinematics: the example batches\<close>

lemmas kin_eval = batch_distances_def mask_assign_def same_vehicle_mask_def coord_steps_def
  batch_speeds_def time_diffs_def speed_where_def derive_rows_def

lemma sorted_one: "sort_key timestamp batch_one = batch_one"
  by (simp add: batch_one_def)











subsection \<open>Kinematics: lengths, masks and first rows\<close>

lemma length_group_diff: "length (group_diff prev rows) = length rows"
  by (induction rows arbitrary: prev) simp_all

lemma length_time_diffs: "length (time_diffs rows) = length rows"
  by (simp add: time_diffs_def length_group_diff)

lemma length_put_mask: "length (put_mask arr msk vs) = length arr"
  by (induction arr msk vs rule: put_mask.induct) simp_all

lemma put_mask_unmasked:
  "i < length arr \<Longrightarrow> i < length msk \<Longrightarrow> \<not> msk ! i \<Longrightarrow> put_mask arr msk vs ! i = arr ! i"
proof (induction arr msk vs arbitrary: i rule: put_mask.induct)
  case (1 d ds m ms v vs)
  then show ?case by (cases i) auto
qed simp_all

lemma length_batch_distances:
  "batch_distances rows = Inr ds \<Longrightarrow> length ds = length rows"
  by (auto simp: batch_distances_def mask_assign_def Let_def length_put_mask split: if_splits)

lemma length_same_vehicle_mask: "length (same_vehicle_mask rows) = length rows"
  by (cases rows) (simp_all add: same_vehicle_mask_def)

lemma same_vehicle_mask_nth:
  assumes "i < length rows"
  shows "same_vehicle_mask rows ! i =
           (0 < i \<and> vehicle_id (rows ! (i - 1)) = vehicle_id (rows ! i))"
proof (cases rows)
  case Nil
  with assms show ?thesis by simp
next
  case (Cons r rs)
  show ?thesis
  proof (cases i)
    case 0
    then show ?thesis by (simp add: same_vehicle_mask_def Cons)
  next
    case (Suc k)
    then have "k < length rs" using assms Cons by simp
    then show ?thesis
      unfolding Suc Cons same_vehicle_mask_def by (cases k) simp_all
  qed
qed

lemma batch_distances_unmasked:
  assumes "batch_distances rows = Inr ds" "i < length rows" "\<not> same_vehicle_mask rows ! i"
  shows "ds ! i = 0"
proof -
  have "put_mask (replicate (length rows) 0) (same_vehicle_mask rows) vs ! i = 0" for vs
    using assms(2,3) by (simp add: put_mask_unmasked length_same_vehicle_mask)
  then show ?thesis
    using assms(1) by (auto simp: batch_distances_def mask_assign_def Let_def split: if_splits)
qed

lemma group_diff_first:
  "i < length rows \<Longrightarrow> prev (fst (rows ! i)) = None \<Longrightarrow>
   (\<forall>j < i. fst (rows ! j) \<noteq> fst (rows ! i)) \<Longrightarrow> group_diff prev rows ! i = NaN"
proof (induction rows arbitrary: prev i)
  case Nil
  then show ?case by simp
next
  case (Cons r rows)
  show ?case
  proof (cases i)
    case 0
    with Cons.prems show ?thesis by simp
  next
    case (Suc k)
    have k: "k < length rows" using Cons.prems(1) Suc by simp
    have ne: "fst r \<noteq> fst (rows ! k)"
      using Cons.prems(3) [rule_format, of 0] Suc by simp
    have p: "(prev(fst r \<mapsto> snd r)) (fst (rows ! k)) = None"
      using Cons.prems(2) Suc ne by simp
    have q: "\<forall>j < k. fst (rows ! j) \<noteq> fst (rows ! k)"
    proof (intro allI impI)
      fix j assume "j < k"
      then have "Suc j < i" using Suc by simp
      from Cons.prems(3) [rule_format, OF this] show "fst (rows ! j) \<noteq> fst (rows ! k)"
        using Suc by simp
    qed
    have "group_diff (prev(fst r \<mapsto> snd r)) rows ! k = NaN"
      by (rule Cons.IH [of k "prev(fst r \<mapsto> snd r)", OF k p q])
    then show ?thesis unfolding Suc by simp
  qed
qed

lemma keep_all: "length keep = length xs \<Longrightarrow>
   (length (map snd (filter fst (zip keep xs))) = length xs) = (\<forall>b \<in> set keep. b)"
proof (induction keep xs rule: list_induct2)
  case Nil
  then show ?case by simp
next
  case (Cons b keep x xs)
  have le: "length (filter fst (zip keep xs)) \<le> length xs"
    using length_filter_le [of fst "zip keep xs"] Cons.hyps by simp
  show ?case using Cons.IH le by auto
qed

lemma length_outlier_keep: "length (outlier_keep speed) = length speed"
  by (simp add: outlier_keep_def length_zscore)

lemma length_batch_speeds:
  "length ds = length rows \<Longrightarrow> length (batch_speeds rows ds) = length rows"
  by (simp add: batch_speeds_def length_time_diffs)

lemma length_derive_rows:
  "length speed = length rows \<Longrightarrow> length ds = length rows \<Longrightarrow>
   length (derive_rows rows speed ds) = length rows"
  by (simp add: derive_rows_def length_time_diffs length_group_diff)

lemma derive_rows_nth:
  assumes "length speed = length rows" "length ds = length rows" "i < length rows"
  shows "derive_rows rows speed ds ! i =
     \<lparr> ds_vehicle_id = Some (vehicle_id (rows ! i)), ds_timestamp = Some (timestamp (rows ! i)),
       ds_speed = Fin (speed ! i), ds_distance = Fin (ds ! i),
       ds_acceleration = fl_div (group_diff Map.empty (zip (map vehicle_id rows) speed) ! i)
                                (time_diffs rows ! i) \<rparr>"
  using assms by (simp add: derive_rows_def length_time_diffs length_group_diff)

text \<open>The three outcomes of the function, by what the outlier filter keeps.\<close>

lemma process_cases:
  assumes "batch_distances (sort_key timestamp data) = Inr ds"
  defines "rows \<equiv> sort_key timestamp data"
  defines "speed \<equiv> batch_speeds (sort_key timestamp data) ds"
  shows "\<not> outliers_requested opts \<or> (\<forall>b \<in> set (outlier_keep speed). b) \<Longrightarrow>
           process_location_data data opts = Inr (derive_rows rows speed ds)"
    and "outliers_requested opts \<Longrightarrow> \<not> (\<forall>b \<in> set (outlier_keep speed). b) \<Longrightarrow>
           process_location_data data opts =
             Inr (map (\<lambda>d. \<lparr> ds_vehicle_id = None, ds_timestamp = None, ds_speed = NaN,
                              ds_distance = Fin d, ds_acceleration = NaN \<rparr>) ds)
           \<or> (\<exists>e. process_location_data data opts = Inl e)"
proof -
  have lds: "length ds = length rows"
    using length_batch_distances [OF assms(1)] by (simp add: rows_def)
  have lsp: "length speed = length rows"
    unfolding speed_def rows_def [symmetric] using lds by (rule length_batch_speeds)
  have lk: "length (outlier_keep speed) = length rows"
    by (simp add: length_outlier_keep lsp)
  { assume a: "\<not> outliers_requested opts \<or> (\<forall>b \<in> set (outlier_keep speed). b)"
    let ?keep = "if outliers_requested opts then outlier_keep speed
                 else replicate (length rows) True"
    have "length ?keep = length rows" using lk by simp
    moreover have "\<forall>b \<in> set ?keep. b" using a by auto
    ultimately have "length (map snd (filter fst (zip ?keep rows))) = length rows"
      using keep_all [of ?keep rows] by blast
    then show "process_location_data data opts = Inr (derive_rows rows speed ds)"
      unfolding process_location_data_def Let_def assms(1) rows_def speed_def by simp }
  { assume r: "outliers_requested opts" and n: "\<not> (\<forall>b \<in> set (outlier_keep speed). b)"
    have "length (map snd (filter fst (zip (outlier_keep speed) rows))) \<noteq> length rows"
      using keep_all [OF lk] n by blast
    then show "process_location_data data opts =
             Inr (map (\<lambda>d. \<lparr> ds_vehicle_id = None, ds_timestamp = None, ds_speed = NaN,
                              ds_distance = Fin d, ds_acceleration = NaN \<rparr>) ds)
           \<or> (\<exists>e. process_location_data data opts = Inl e)"
      unfolding process_location_data_def Let_def assms(1) rows_def speed_def
      using r by simp }
qed


lemma process_cong:
  "outliers_requested opts = outliers_requested opts' \<Longrightarrow>
   process_location_data data opts = process_location_data data opts'"
  by (simp add: process_location_data_def Let_def split: sum.splits)

lemma process_defined_rows:
  assumes "process_location_data data opts = Inr out"
    and "i < length out" and "ds_vehicle_id (out ! i) \<noteq> None"
  shows "\<exists>ds. batch_distances (sort_key timestamp data) = Inr ds \<and>
           out = derive_rows (sort_key timestamp data)
                   (batch_speeds (sort_key timestamp data) ds) ds"
proof (cases "batch_distances (sort_key timestamp data)")
  case (Inl e)
  with assms(1) show ?thesis by (simp add: process_location_data_def)
next
  case (Inr ds)
  let ?speed = "batch_speeds (sort_key timestamp data) ds"
  show ?thesis
  proof (cases "\<not> outliers_requested opts \<or> (\<forall>b \<in> set (outlier_keep ?speed). b)")
    case True
    from process_cases(1) [OF Inr True] assms(1) Inr show ?thesis by simp
  next
    case False
    then have "process_location_data data opts =
             Inr (map (\<lambda>d. \<lparr> ds_vehicle_id = None, ds_timestamp = None, ds_speed = NaN,
                              ds_distance = Fin d, ds_acceleration = NaN \<rparr>) ds)
           \<or> (\<exists>e. process_location_data data opts = Inl e)"
      using process_cases(2) [OF Inr, of opts] by blast
    with assms(1) have "out = map (\<lambda>d. \<lparr> ds_vehicle_id = None, ds_timestamp = None,
         ds_speed = NaN, ds_distance = Fin d, ds_acceleration = NaN \<rparr>) ds"
      by auto
    with assms(2,3) show ?thesis by simp
  qed
qed

lemma batch_speeds_nth:
  "length ds = length rows \<Longrightarrow> i < length rows \<Longrightarrow>
   batch_speeds rows ds ! i = speed_where (time_diffs rows ! i) (ds ! i)"
  by (simp add: batch_speeds_def length_time_diffs)





lemma derive_rows_defined: "\<forall>d \<in> set (derive_rows rows speed ds). ds_vehicle_id d \<noteq> None"
  by (auto simp: derive_rows_def)

lemma process_unfiltered:
  assumes "process_location_data data opts = Inr out" "\<not> outliers_requested opts"
  shows "\<exists>ds. batch_distances (sort_key timestamp data) = Inr ds \<and>
           out = derive_rows (sort_key timestamp data)
                   (batch_speeds (sort_key timestamp data) ds) ds"
proof (cases "batch_distances (sort_key timestamp data)")
  case (Inl e)
  with assms(1) show ?thesis by (simp add: process_location_data_def)
next
  case (Inr ds)
  from process_cases(1) [OF Inr, of opts] assms show ?thesis using Inr by simp
qed

lemma process_length:
  assumes "process_location_data data opts = Inr out"
  shows "length out = length data"
proof (cases "batch_distances (sort_key timestamp data)")
  case (Inl e)
  with assms show ?thesis by (simp add: process_location_data_def)
next
  case (Inr ds)
  have l: "length ds = length data" using length_batch_distances [OF Inr] by simp
  have "length (derive_rows (sort_key timestamp data)
           (batch_speeds (sort_key timestamp data) ds) ds) = length data"
    using length_derive_rows [of "batch_speeds (sort_key timestamp data) ds"
        "sort_key timestamp data" ds] l
    by (simp add: length_batch_speeds)
  then show ?thesis
    using assms l unfolding process_location_data_def Let_def Inr
    by (auto split: if_splits)
qed






lemma process_one_unfiltered:
  "process_location_data batch_one [''remove_outliers'' \<mapsto> PBool False] =
     Inr [\<lparr> ds_vehicle_id = Some ''v1'', ds_timestamp = Some 0, ds_speed = Fin 0,
            ds_distance = Fin 0, ds_acceleration = NaN \<rparr>]"
  unfolding process_location_data_def sorted_one Let_def
  by (simp add: batch_one_def kin_eval outliers_requested_def dict_get_def)

text \<open>
  Claim C4 fails on the code.  A batch of one sample, filter off: the vehicle's only
  sample is returned as a row, with speed 0, distance 0 and no acceleration.  Nothing in
  the function drops the first row of a vehicle.
\<close>

theorem single_sample_counterexample:
  "process_location_data batch_one [''remove_outliers'' \<mapsto> PBool False] =
     Inr [\<lparr> ds_vehicle_id = Some ''v1'', ds_timestamp = Some 0, ds_speed = Fin 0,
            ds_distance = Fin 0, ds_acceleration = NaN \<rparr>]
   \<and> map vehicle_id batch_one = [''v1'']"
  using process_one_unfiltered by (simp add: batch_one_def)

lemma single_sample_position:
  assumes "r \<in> set rows" "length (filter (\<lambda>s. vehicle_id s = vehicle_id r) rows) = 1"
  shows "\<exists>i < length rows. rows ! i = r \<and>
           (\<forall>j < i. vehicle_id (rows ! j) \<noteq> vehicle_id (rows ! i))"
proof -
  let ?P = "\<lambda>s. vehicle_id s = vehicle_id r"
  obtain x where x: "filter ?P rows = [x]"
    using assms(2) by (cases "filter ?P rows") simp_all
  have "r \<in> set (filter ?P rows)" using assms(1) by simp
  then have xr: "x = r" using x by simp
  from x [unfolded xr filter_eq_Cons_iff] obtain us vs
    where rows: "rows = us @ r # vs" and us: "\<forall>u \<in> set us. \<not> ?P u" by blast
  have "rows ! length us = r" by (simp add: rows)
  moreover have "length us < length rows" by (simp add: rows)
  moreover have "vehicle_id (rows ! j) \<noteq> vehicle_id (rows ! length us)" if "j < length us" for j
  proof -
    have "rows ! j = us ! j" using that by (simp add: rows nth_append)
    then have "rows ! j \<in> set us" using that by simp
    then show ?thesis using us by (simp add: rows)
  qed
  ultimately show ?thesis by blast
qed

lemma first_of_vehicle_row:
  assumes ds: "batch_distances rows = Inr ds"
    and i: "i < length rows"
    and first: "\<forall>j < i. vehicle_id (rows ! j) \<noteq> vehicle_id (rows ! i)"
  shows "derive_rows rows (batch_speeds rows ds) ds ! i =
     \<lparr> ds_vehicle_id = Some (vehicle_id (rows ! i)), ds_timestamp = Some (timestamp (rows ! i)),
       ds_speed = Fin 0, ds_distance = Fin 0, ds_acceleration = NaN \<rparr>"
proof -
  have l: "length ds = length rows" by (rule length_batch_distances [OF ds])
  have ls: "length (batch_speeds rows ds) = length rows" by (rule length_batch_speeds [OF l])
  have td: "time_diffs rows ! i = NaN"
    unfolding time_diffs_def
    by (rule group_diff_first) (use i first in simp_all)
  have "\<not> same_vehicle_mask rows ! i"
  proof (cases i)
    case 0
    then show ?thesis using i by (simp add: same_vehicle_mask_nth)
  next
    case (Suc k)
    then have "vehicle_id (rows ! k) \<noteq> vehicle_id (rows ! i)" using first by simp
    then show ?thesis using i Suc by (simp add: same_vehicle_mask_nth)
  qed
  then have d: "ds ! i = 0" by (rule batch_distances_unmasked [OF ds i])
  have sp: "batch_speeds rows ds ! i = 0"
    by (simp add: batch_speeds_nth [OF l i] td speed_where_def)
  have sd: "group_diff Map.empty (zip (map vehicle_id rows) (batch_speeds rows ds)) ! i = NaN"
    by (rule group_diff_first) (use i first ls in simp_all)
  show ?thesis
    by (simp add: derive_rows_nth [OF ls l i] d sp sd)
qed

text \<open>
  Claim C4, as the code has it.  When the derivation returns the rows of the samples (it
  always does so when it returns with the filter off), it returns one row per input
  sample, and a vehicle with exactly one sample contributes the row of that sample: speed
  0, distance 0, acceleration undefined.
\<close>

theorem single_sample_row_kept:
  assumes "process_location_data data opts = Inr out"
    and "r \<in> set data"
    and "length (filter (\<lambda>s. vehicle_id s = vehicle_id r) data) = 1"
  shows "(\<not> outliers_requested opts \<longrightarrow> list_all (\<lambda>d. ds_vehicle_id d \<noteq> None) out)
       \<and> (list_all (\<lambda>d. ds_vehicle_id d \<noteq> None) out \<longrightarrow>
            length out = length data \<and>
            \<lparr> ds_vehicle_id = Some (vehicle_id r), ds_timestamp = Some (timestamp r),
              ds_speed = Fin 0, ds_distance = Fin 0, ds_acceleration = NaN \<rparr> \<in> set out)"
proof (intro conjI impI)
  assume "\<not> outliers_requested opts"
  from process_unfiltered [OF assms(1) this]
  show "list_all (\<lambda>d. ds_vehicle_id d \<noteq> None) out"
    using derive_rows_defined by (auto simp: list_all_iff)
next
  assume def: "list_all (\<lambda>d. ds_vehicle_id d \<noteq> None) out"
  let ?rows = "sort_key timestamp data"
  show len: "length out = length data" by (rule process_length [OF assms(1)])
  have ne: "0 < length out" using len assms(2) by (cases data) simp_all
  then have "ds_vehicle_id (out ! 0) \<noteq> None"
    using def by (simp add: list_all_length)
  from process_defined_rows [OF assms(1) ne this] obtain ds
    where ds: "batch_distances ?rows = Inr ds"
      and out: "out = derive_rows ?rows (batch_speeds ?rows ds) ds" by blast
  have "r \<in> set ?rows" using assms(2) by simp
  moreover have "length (filter (\<lambda>s. vehicle_id s = vehicle_id r) ?rows) = 1"
    using assms(3) by (simp add: filter_sort)
  ultimately obtain i where i: "i < length ?rows" and ri: "?rows ! i = r"
      and first: "\<forall>j < i. vehicle_id (?rows ! j) \<noteq> vehicle_id (?rows ! i)"
    using single_sample_position by blast
  have "out ! i = \<lparr> ds_vehicle_id = Some (vehicle_id r), ds_timestamp = Some (timestamp r),
              ds_speed = Fin 0, ds_distance = Fin 0, ds_acceleration = NaN \<rparr>"
    unfolding out first_of_vehicle_row [OF ds i first] ri by (rule refl)
  moreover have "i < length out" using i len by simp
  ultimately show "\<lparr> ds_vehicle_id = Some (vehicle_id r), ds_timestamp = Some (timestamp r),
              ds_speed = Fin 0, ds_distance = Fin 0, ds_acceleration = NaN \<rparr> \<in> set out"
    by (metis nth_mem)
qed

lemma process_pair:
  "process_location_data batch_pair [''remove_outliers'' \<mapsto> PBool False] =
     Inr [\<lparr> ds_vehicle_id = Some ''v1'', ds_timestamp = Some 0, ds_speed = Fin 0,
            ds_distance = Fin 0, ds_acceleration = NaN \<rparr>,
          \<lparr> ds_vehicle_id = Some ''v2'', ds_timestamp = Some 10, ds_speed = Fin 0,
            ds_distance = Fin 0, ds_acceleration = NaN \<rparr>]"
proof -
  have s: "sort_key timestamp batch_pair = batch_pair"
    by (simp add: batch_pair_def)
  show ?thesis
    unfolding process_location_data_def s Let_def
    by (simp add: batch_pair_def kin_eval outliers_requested_def dict_get_def)
qed

text \<open>
  Two vehicles with one sample each.
\<close>

theorem single_sample_row_kept_witness:
  "process_location_data batch_pair [''remove_outliers'' \<mapsto> PBool False] =
     Inr [\<lparr> ds_vehicle_id = Some ''v1'', ds_timestamp = Some 0, ds_speed = Fin 0,
            ds_distance = Fin 0, ds_acceleration = NaN \<rparr>,
          \<lparr> ds_vehicle_id = Some ''v2'', ds_timestamp = Some 10, ds_speed = Fin 0,
            ds_distance = Fin 0, ds_acceleration = NaN \<rparr>]
   \<and> batch_pair ! 1 \<in> set batch_pair
   \<and> length (filter (\<lambda>s. vehicle_id s = vehicle_id (batch_pair ! 1)) batch_pair) = 1
   \<and> \<not> outliers_requested [''remove_outliers'' \<mapsto> PBool False]
   \<and> \<lparr> ds_vehicle_id = Some ''v2'', ds_timestamp = Some 10, ds_speed = Fin 0,
         ds_distance = Fin 0, ds_acceleration = NaN \<rparr>
       \<in> set [\<lparr> ds_vehicle_id = Some ''v1'', ds_timestamp = Some 0, ds_speed = Fin 0,
                 ds_distance = Fin 0, ds_acceleration = NaN \<rparr>,
               \<lparr> ds_vehicle_id = Some ''v2'', ds_timestamp = Some 10, ds_speed = Fin 0,
                 ds_distance = Fin 0, ds_acceleration = NaN \<rparr>]"
proof -
  have m: "batch_pair ! 1 \<in> set batch_pair" by (simp add: batch_pair_def)
  have c: "length (filter (\<lambda>s. vehicle_id s = vehicle_id (batch_pair ! 1)) batch_pair) = 1"
    by (simp add: batch_pair_def)
  have o: "\<not> outliers_requested [''remove_outliers'' \<mapsto> PBool False]"
    by (simp add: outliers_requested_def dict_get_def)
  have v: "vehicle_id (batch_pair ! 1) = ''v2''" "timestamp (batch_pair ! 1) = 10"
    by (simp_all add: batch_pair_def)
  show ?thesis
    using single_sample_row_kept [OF process_pair m c] o m c process_pair
    unfolding v by simp
qed






text \<open>
  Claim C10.  Without the key \<open>remove_outliers\<close> the function behaves as with
  \<open>remove_outliers = True\<close>: the results are equal, for every batch and whatever else
  the options hold.  The filter is requested unless the key is present with a value that
  Python takes for false; for a boolean, that is the value \<open>False\<close> alone.  When it is
  not requested, nothing is filtered: a result has one row per input sample, each the row
  of a sample.
\<close>

theorem remove_outliers_default:
  "(opts ''remove_outliers'' = None \<longrightarrow>
      process_location_data data opts
        = process_location_data data (opts(''remove_outliers'' \<mapsto> PBool True)))
   \<and> outliers_requested opts
       = (case opts ''remove_outliers'' of None \<Rightarrow> True | Some x \<Rightarrow> truthy x)
   \<and> (opts ''remove_outliers'' = None \<or> opts ''remove_outliers'' = Some (PBool True) \<longrightarrow>
        outliers_requested opts)
   \<and> (opts ''remove_outliers'' = Some (PBool False) \<longrightarrow> \<not> outliers_requested opts)
   \<and> (\<not> outliers_requested opts \<and> process_location_data data opts = Inr out \<longrightarrow>
        length out = length data \<and> list_all (\<lambda>d. ds_vehicle_id d \<noteq> None) out)"
proof (intro conjI impI)
  assume n: "opts ''remove_outliers'' = None"
  have "outliers_requested opts
        = outliers_requested (opts(''remove_outliers'' \<mapsto> PBool True))"
    using n by (simp add: outliers_requested_def dict_get_def)
  then show "process_location_data data opts
        = process_location_data data (opts(''remove_outliers'' \<mapsto> PBool True))"
    by (rule process_cong)
next
  show "outliers_requested opts
       = (case opts ''remove_outliers'' of None \<Rightarrow> True | Some x \<Rightarrow> truthy x)"
    by (simp add: outliers_requested_def dict_get_def split: option.splits)
next
  assume "opts ''remove_outliers'' = None \<or> opts ''remove_outliers'' = Some (PBool True)"
  then show "outliers_requested opts"
    by (auto simp: outliers_requested_def dict_get_def)
next
  assume "opts ''remove_outliers'' = Some (PBool False)"
  then show "\<not> outliers_requested opts"
    by (simp add: outliers_requested_def dict_get_def)
next
  assume a: "\<not> outliers_requested opts \<and> process_location_data data opts = Inr out"
  then show "length out = length data" using process_length by blast
next
  assume a: "\<not> outliers_requested opts \<and> process_location_data data opts = Inr out"
  then obtain ds where "out = derive_rows (sort_key timestamp data)
                   (batch_speeds (sort_key timestamp data) ds) ds"
    using process_unfiltered by blast
  then show "list_all (\<lambda>d. ds_vehicle_id d \<noteq> None) out"
    using derive_rows_defined by (auto simp: list_all_iff)
qed

lemma process_one_filtered:
  "process_location_data batch_one [''remove_outliers'' \<mapsto> PBool True] =
     Inr [\<lparr> ds_vehicle_id = None, ds_timestamp = None, ds_speed = NaN,
            ds_distance = Fin 0, ds_acceleration = NaN \<rparr>]"
  unfolding process_location_data_def sorted_one Let_def
  by (simp add: batch_one_def kin_eval outliers_requested_def dict_get_def outlier_keep_def
      zscore_def isconst_def)

text \<open>
  On the batch of one sample the filter shows: its speed column is constant, every
  z-score is NaN, and no row passes the filter.  Empty options and \<open>True\<close> give the same
  result, \<open>False\<close> gives the row of the sample.
\<close>

theorem remove_outliers_default_witness:
  "(Map.empty :: string \<rightharpoonup> pyval) ''remove_outliers'' = None
   \<and> process_location_data batch_one Map.empty
       = process_location_data batch_one [''remove_outliers'' \<mapsto> PBool True]
   \<and> process_location_data batch_one Map.empty
       = Inr [\<lparr> ds_vehicle_id = None, ds_timestamp = None, ds_speed = NaN,
                ds_distance = Fin 0, ds_acceleration = NaN \<rparr>]
   \<and> outliers_requested Map.empty
   \<and> \<not> outliers_requested [''remove_outliers'' \<mapsto> PBool False]
   \<and> process_location_data batch_one [''remove_outliers'' \<mapsto> PBool False]
       = Inr [\<lparr> ds_vehicle_id = Some ''v1'', ds_timestamp = Some 0, ds_speed = Fin 0,
                ds_distance = Fin 0, ds_acceleration = NaN \<rparr>]"
  using remove_outliers_default [of Map.empty batch_one]
    remove_outliers_default [of "[''remove_outliers'' \<mapsto> PBool False]" batch_one]
    process_one_filtered process_one_unfiltered
  by simp

end
